theory Spec2Isabelle
  imports Complex_Main
begin

section \<open>Documents, collections and the database handle\<close>

text \<open>
  The repository holds two implementations of one REST surface: \<^verbatim>\<open>main.py\<close> (called the
  root variant here) and \<^verbatim>\<open>backend/main.py\<close> (the backend variant, whose definitions
  carry the prefix \<open>backend_\<close>). Both talk to a MongoDB handle \<^verbatim>\<open>db\<close>.

  Instants are integers (microseconds); all clock reads of one request return the same
  instant \<open>now\<close>, and stored instants are compared as instants. Identifiers generated by
  the database and tokens drawn from \<^verbatim>\<open>secrets\<close> are inputs of a request (\<open>env\<close>):
  nothing is assumed about them.
\<close>

type_synonym time = int

text \<open>
  \<^verbatim>\<open>bson.ObjectId\<close>: twelve bytes, written as 24 hexadecimal digits. The constructor
  accepts either case; \<^verbatim>\<open>str\<close> gives lower case.
\<close>

datatype oid = ObjectId string

fun str_oid :: "oid \<Rightarrow> string" where
  "str_oid (ObjectId h) = h"

definition is_hex :: "char \<Rightarrow> bool" where
  "is_hex c \<longleftrightarrow> c \<in> set ''0123456789abcdefABCDEF''"

definition lower_hex :: "char \<Rightarrow> char" where
  "lower_hex c =
     (if c = CHR ''A'' then CHR ''a'' else if c = CHR ''B'' then CHR ''b''
      else if c = CHR ''C'' then CHR ''c'' else if c = CHR ''D'' then CHR ''d''
      else if c = CHR ''E'' then CHR ''e'' else if c = CHR ''F'' then CHR ''f'' else c)"

definition parse_oid :: "string \<Rightarrow> oid option" where
  "parse_oid s =
     (if length s = 24 \<and> list_all is_hex s then Some (ObjectId (map lower_hex s)) else None)"

text \<open>Scalar values of stored fields, and the nested values handlers return.\<close>

datatype val =
    VNone
  | VBool bool
  | VInt int
  | VNum rat
  | VStr string
  | VTime time
  | VOid oid

type_synonym pydict = "(string \<times> val) list"

datatype pyobj =
    PV val
  | PDict "(string \<times> pyobj) list"
  | PList "pyobj list"

definition pdict :: "pydict \<Rightarrow> pyobj" where
  "pdict d = PDict (map (\<lambda>(k, v). (k, PV v)) d)"

text \<open>
  A stored document is its \<^verbatim>\<open>_id\<close> (always an ObjectId: no insert of the program
  supplies one) and its other fields in insertion order. A collection lists its documents
  in insertion order, the order in which \<^verbatim>\<open>find\<close> and \<^verbatim>\<open>find_one\<close> scan.
\<close>

type_synonym document = "oid \<times> pydict"

record db =
  student :: "document list"
  session :: "document list"
  course :: "document list"
  enrollment :: "document list"
  attendance :: "document list"
  grade :: "document list"
  announcement :: "document list"

definition empty_db :: db where
  "empty_db = \<lparr>student = [], session = [], course = [], enrollment = [], attendance = [],
     grade = [], announcement = []\<rparr>"

record env =
  now :: time
  new_token :: string
  new_id :: oid
  new_id2 :: oid
  new_id3 :: oid

datatype error =
    HTTPException nat string
  | KeyError string
  | TypeError
  | InvalidId
  | IndexError
  | ValidationError
  | ZeroDivisionError

definition bind_err :: "error + 'a \<Rightarrow> ('a \<Rightarrow> error + 'b) \<Rightarrow> error + 'b" where
  "bind_err r k = (case r of Inl e \<Rightarrow> Inl e | Inr x \<Rightarrow> k x)"

text \<open>\<^verbatim>\<open>d[k]\<close> and \<^verbatim>\<open>d.get(k, default)\<close> of a Python dict.\<close>

definition getitem :: "pydict \<Rightarrow> string \<Rightarrow> error + val" where
  "getitem d k = (case map_of d k of None \<Rightarrow> Inl (KeyError k) | Some v \<Rightarrow> Inr v)"

definition get_default :: "pydict \<Rightarrow> string \<Rightarrow> val \<Rightarrow> val" where
  "get_default d k dflt = (case map_of d k of None \<Rightarrow> dflt | Some v \<Rightarrow> v)"

text \<open>
  An equality filter \<^verbatim>\<open>{k1: v1, k2: v2}\<close> on fields other than \<^verbatim>\<open>_id\<close>: every
  named field is present with that value. The filters of the program carry strings only.
\<close>

definition matches :: "pydict \<Rightarrow> document \<Rightarrow> bool" where
  "matches flt doc \<longleftrightarrow> list_all (\<lambda>(k, v). map_of (snd doc) k = Some v) flt"

definition find_one :: "pydict \<Rightarrow> document list \<Rightarrow> document option" where
  "find_one flt coll = find (matches flt) coll"

definition find_many :: "pydict \<Rightarrow> document list \<Rightarrow> document list" where
  "find_many flt coll = filter (matches flt) coll"

definition find_one_id :: "oid \<Rightarrow> document list \<Rightarrow> document option" where
  "find_one_id i coll = find (\<lambda>doc. fst doc = i) coll"

definition insert_one :: "oid \<Rightarrow> pydict \<Rightarrow> document list \<Rightarrow> document list" where
  "insert_one i flds coll = coll @ [(i, flds)]"

text \<open>The dict a driver read returns: \<^verbatim>\<open>_id\<close> first, then the fields.\<close>

definition as_dict :: "document \<Rightarrow> pydict" where
  "as_dict doc = (''_id'', VOid (fst doc)) # snd doc"

text \<open>After \<^verbatim>\<open>doc["_id"] = str(doc["_id"])\<close>: the key keeps its place.\<close>

definition str_id_dict :: "document \<Rightarrow> pydict" where
  "str_id_dict doc = (''_id'', VStr (str_oid (fst doc))) # snd doc"

section \<open>Strings of the Authorization header\<close>

text \<open>
  A header value is decoded as Latin-1, one character per byte. \<^verbatim>\<open>str.strip()\<close> removes
  the white space of that range at both ends.
\<close>

definition is_space :: "char \<Rightarrow> bool" where
  "is_space c \<longleftrightarrow> c \<in> set [CHR 0x09, CHR 0x0A, CHR 0x0B, CHR 0x0C, CHR 0x0D, CHR 0x1C,
     CHR 0x1D, CHR 0x1E, CHR 0x1F, CHR 0x20, CHR 0x85, CHR 0xA0]"

definition strip :: "string \<Rightarrow> string" where
  "strip s = rev (dropWhile is_space (rev (dropWhile is_space s)))"

definition startswith :: "string \<Rightarrow> string \<Rightarrow> bool" where
  "startswith s p \<longleftrightarrow> take (length p) s = p"

text \<open>\<^verbatim>\<open>s.replace("Bearer ", "")\<close>: every occurrence, scanning from the left.\<close>

function remove_bearer :: "string \<Rightarrow> string" where
  "remove_bearer s =
     (if s = [] then []
      else if startswith s ''Bearer '' then remove_bearer (drop 7 s)
      else hd s # remove_bearer (tl s))"
  by pat_completeness auto
termination
  by (relation "measure length") auto

text \<open>\<^verbatim>\<open>s.split(" ", 1)[1]\<close>: what follows the first space.\<close>

definition split1_second :: "string \<Rightarrow> error + string" where
  "split1_second s =
     (case dropWhile (\<lambda>c. c \<noteq> CHR '' '') s of [] \<Rightarrow> Inl IndexError | _ # r \<Rightarrow> Inr r)"

section \<open>Root variant: authentication gate\<close>

text \<open>
  \<^verbatim>\<open>session.get("expires_at") and session["expires_at"] < now\<close>: a missing or
  falsy value skips the test, an instant is compared, any other truthy value cannot be
  compared with an instant.
\<close>

fun truthy :: "val \<Rightarrow> bool" where
  "truthy VNone = False"
| "truthy (VBool b) = b"
| "truthy (VInt i) = (i \<noteq> 0)"
| "truthy (VNum r) = (r \<noteq> 0)"
| "truthy (VStr s) = (s \<noteq> [])"
| "truthy (VTime t) = True"
| "truthy (VOid i) = True"

definition session_expired :: "pydict \<Rightarrow> time \<Rightarrow> error + bool" where
  "session_expired sess t =
     (case map_of sess ''expires_at'' of
        None \<Rightarrow> Inr False
      | Some (VTime e) \<Rightarrow> Inr (e < t)
      | Some v \<Rightarrow> if truthy v then Inl TypeError else Inr False)"

text \<open>\<^verbatim>\<open>find_one({"_id": v})\<close>: only an ObjectId can equal a stored \<^verbatim>\<open>_id\<close>.\<close>

definition find_one_id_val :: "val \<Rightarrow> document list \<Rightarrow> document option" where
  "find_one_id_val v coll = (case v of VOid i \<Rightarrow> find_one_id i coll | _ \<Rightarrow> None)"

definition user_view :: "document \<Rightarrow> error + pydict" where
  "user_view user =
     bind_err (getitem (snd user) ''name'') (\<lambda>n.
     bind_err (getitem (snd user) ''email'') (\<lambda>e.
       Inr [(''_id'', VStr (str_oid (fst user))), (''name'', n), (''email'', e),
            (''role'', get_default (snd user) ''role'' (VStr ''student''))]))"

definition get_current_user :: "db \<Rightarrow> time \<Rightarrow> string option \<Rightarrow> error + pydict" where
  "get_current_user d t authorization =
     (case authorization of
        None \<Rightarrow> Inl (HTTPException 401 ''Missing Authorization header'')
      | Some a \<Rightarrow>
          if a = [] then Inl (HTTPException 401 ''Missing Authorization header'')
          else
            (case find_one [(''token'', VStr (strip (remove_bearer a)))] (session d) of
               None \<Rightarrow> Inl (HTTPException 401 ''Invalid token'')
             | Some sess \<Rightarrow>
                 bind_err (session_expired (snd sess) t) (\<lambda>expired.
                   if expired then Inl (HTTPException 401 ''Token expired'')
                   else
                     bind_err (getitem (snd sess) ''user_id'') (\<lambda>uid.
                       (case find_one_id_val uid (student d) of
                          None \<Rightarrow> Inl (HTTPException 401 ''User not found'')
                        | Some user \<Rightarrow> user_view user)))))"

section \<open>Root variant: request bodies and handlers\<close>

text \<open>
  Request bodies arrive validated by the framework. The request classes of the two
  variants have the same fields, except the course body; one record serves both.
\<close>

record RegisterRequest =
  r_name :: string
  r_email :: string
  r_password :: string

record LoginRequest =
  l_email :: string
  l_password :: string

record CourseCreate =
  c_code :: string
  c_title :: string
  c_description :: "string option"
  c_instructor :: "string option"
  c_capacity :: "int option"

record EnrollmentRequest =
  e_course_id :: string

record AttendanceMarkRequest =
  a_course_id :: string
  a_status :: string

record GradeCreate =
  g_course_id :: string
  g_grade :: rat
  g_label :: "string option"

record AnnouncementCreate =
  n_course_id :: string
  n_title :: string
  n_content :: string

fun opt_str :: "string option \<Rightarrow> val" where
  "opt_str None = VNone"
| "opt_str (Some s) = VStr s"

fun opt_int :: "int option \<Rightarrow> val" where
  "opt_int None = VNone"
| "opt_int (Some i) = VInt i"

text \<open>\<^verbatim>\<open>timedelta(days=7)\<close> in microseconds.\<close>

definition days7 :: time where
  "days7 = 7 * 86400 * 1000000"

type_synonym outcome = "(error + pyobj) \<times> db"

text \<open>
  A raised exception ends the request with the database as it is at that point; \<open>proceed\<close>
  continues with the value otherwise. It also renders \<^verbatim>\<open>Depends(get_current_user)\<close>: the
  handler runs only on the identity the gate returns.
\<close>

definition proceed :: "error + 'a \<Rightarrow> db \<Rightarrow> ('a \<Rightarrow> outcome) \<Rightarrow> outcome" where
  "proceed r d k = (case r of Inl err \<Rightarrow> (Inl err, d) | Inr x \<Rightarrow> k x)"

definition to_object_id :: "string \<Rightarrow> error + oid" where
  "to_object_id id_str =
     (case parse_oid id_str of
        Some i \<Rightarrow> Inr i
      | None \<Rightarrow> Inl (HTTPException 400 ''Invalid id format''))"

text \<open>
  The password hash (SHA-256, hexadecimal) is the parameter \<open>hash_password\<close> of the two
  handlers that call it.
\<close>

definition register ::
  "(string \<Rightarrow> string) \<Rightarrow> db \<Rightarrow> env \<Rightarrow> RegisterRequest \<Rightarrow> outcome" where
  "register hash_password d e payload =
     (case find_one [(''email'', VStr (r_email payload))] (student d) of
        Some _ \<Rightarrow> (Inl (HTTPException 400 ''Email already registered''), d)
      | None \<Rightarrow>
          let student_doc =
                [(''name'', VStr (r_name payload)),
                 (''email'', VStr (r_email payload)),
                 (''password_hash'', VStr (hash_password (r_password payload))),
                 (''role'', VStr ''student''),
                 (''is_active'', VBool True),
                 (''created_at'', VTime (now e)),
                 (''updated_at'', VTime (now e))];
              user_id = new_id e;
              session_doc =
                [(''user_id'', VOid user_id),
                 (''token'', VStr (new_token e)),
                 (''expires_at'', VTime (now e + days7)),
                 (''created_at'', VTime (now e))]
          in (Inr (PDict [(''token'', PV (VStr (new_token e))),
                          (''user'', pdict [(''_id'', VStr (str_oid user_id)),
                                            (''name'', VStr (r_name payload)),
                                            (''email'', VStr (r_email payload)),
                                            (''role'', VStr ''student'')])]),
              d\<lparr>student := insert_one user_id student_doc (student d),
                session := insert_one (new_id2 e) session_doc (session d)\<rparr>))"

definition login ::
  "(string \<Rightarrow> string) \<Rightarrow> db \<Rightarrow> env \<Rightarrow> LoginRequest \<Rightarrow> outcome" where
  "login hash_password d e payload =
     (case find_one [(''email'', VStr (l_email payload))] (student d) of
        None \<Rightarrow> (Inl (HTTPException 401 ''Invalid credentials''), d)
      | Some user \<Rightarrow>
          if get_default (snd user) ''password_hash'' VNone
               \<noteq> VStr (hash_password (l_password payload))
          then (Inl (HTTPException 401 ''Invalid credentials''), d)
          else
            let session_doc =
                  [(''user_id'', VOid (fst user)),
                   (''token'', VStr (new_token e)),
                   (''expires_at'', VTime (now e + days7)),
                   (''created_at'', VTime (now e))];
                d' = d\<lparr>session := insert_one (new_id e) session_doc (session d)\<rparr>
            in proceed (user_view user) d' (\<lambda>view.
                 (Inr (PDict [(''token'', PV (VStr (new_token e))), (''user'', pdict view)]),
                  d')))"

definition create_course :: "db \<Rightarrow> env \<Rightarrow> CourseCreate \<Rightarrow> pydict \<Rightarrow> outcome" where
  "create_course d e payload user =
     proceed (getitem user ''role'') d (\<lambda>role.
       if role \<noteq> VStr ''admin''
       then (Inl (HTTPException 403 ''Only admin can create courses''), d)
       else
         (case find_one [(''code'', VStr (c_code payload))] (course d) of
            Some _ \<Rightarrow> (Inl (HTTPException 400 ''Course code exists''), d)
          | None \<Rightarrow>
              let course_doc =
                    [(''code'', VStr (c_code payload)),
                     (''title'', VStr (c_title payload)),
                     (''description'', opt_str (c_description payload)),
                     (''instructor'', opt_str (c_instructor payload)),
                     (''capacity'', opt_int (c_capacity payload)),
                     (''created_at'', VTime (now e)),
                     (''updated_at'', VTime (now e))]
              in (Inr (pdict (course_doc @ [(''_id'', VStr (str_oid (new_id e)))])),
                  d\<lparr>course := insert_one (new_id e) course_doc (course d)\<rparr>)))"

definition enroll_course :: "db \<Rightarrow> env \<Rightarrow> EnrollmentRequest \<Rightarrow> pydict \<Rightarrow> outcome" where
  "enroll_course d e payload user =
     proceed (to_object_id (e_course_id payload)) d (\<lambda>cid.
       (case find_one_id cid (course d) of
          None \<Rightarrow> (Inl (HTTPException 404 ''Course not found''), d)
        | Some _ \<Rightarrow>
            proceed (getitem user ''_id'') d (\<lambda>uid.
              (case find_one [(''student_id'', uid),
                              (''course_id'', VStr (e_course_id payload))] (enrollment d) of
                 Some _ \<Rightarrow> (Inl (HTTPException 400 ''Already enrolled''), d)
               | None \<Rightarrow>
                   let enrollment_doc =
                         [(''student_id'', uid),
                          (''course_id'', VStr (e_course_id payload)),
                          (''status'', VStr ''enrolled''),
                          (''enrolled_at'', VTime (now e))]
                   in (Inr (pdict [(''message'', VStr ''Enrolled successfully'')]),
                       d\<lparr>enrollment :=
                           insert_one (new_id e) enrollment_doc (enrollment d)\<rparr>)))))"

definition mark_attendance ::
  "db \<Rightarrow> env \<Rightarrow> AttendanceMarkRequest \<Rightarrow> pydict \<Rightarrow> outcome" where
  "mark_attendance d e payload user =
     proceed (getitem user ''_id'') d (\<lambda>uid.
       (case find_one [(''student_id'', uid),
                       (''course_id'', VStr (a_course_id payload))] (enrollment d) of
          None \<Rightarrow> (Inl (HTTPException 400 ''Not enrolled in the course''), d)
        | Some _ \<Rightarrow>
            let record_doc =
                  [(''student_id'', uid),
                   (''course_id'', VStr (a_course_id payload)),
                   (''date'', VTime (now e)),
                   (''status'', VStr (a_status payload))]
            in (Inr (pdict [(''message'', VStr ''Attendance marked'')]),
                d\<lparr>attendance := insert_one (new_id e) record_doc (attendance d)\<rparr>)))"

definition add_grade :: "db \<Rightarrow> env \<Rightarrow> GradeCreate \<Rightarrow> pydict \<Rightarrow> outcome" where
  "add_grade d e payload user =
     proceed (getitem user ''_id'') d (\<lambda>uid.
       (case find_one [(''student_id'', uid),
                       (''course_id'', VStr (g_course_id payload))] (enrollment d) of
          None \<Rightarrow> (Inl (HTTPException 400 ''Not enrolled in the course''), d)
        | Some _ \<Rightarrow>
            let item =
                  [(''student_id'', uid),
                   (''course_id'', VStr (g_course_id payload)),
                   (''grade'', VNum (g_grade payload)),
                   (''label'', opt_str (g_label payload)),
                   (''graded_at'', VTime (now e))]
            in (Inr (pdict [(''message'', VStr ''Grade added'')]),
                d\<lparr>grade := insert_one (new_id e) item (grade d)\<rparr>)))"

definition create_announcement ::
  "db \<Rightarrow> env \<Rightarrow> AnnouncementCreate \<Rightarrow> pydict \<Rightarrow> outcome" where
  "create_announcement d e payload user =
     proceed (to_object_id (n_course_id payload)) d (\<lambda>cid.
       (case find_one_id cid (course d) of
          None \<Rightarrow> (Inl (HTTPException 404 ''Course not found''), d)
        | Some _ \<Rightarrow>
            proceed (getitem user ''_id'') d (\<lambda>uid.
              let item =
                    [(''course_id'', VStr (n_course_id payload)),
                     (''title'', VStr (n_title payload)),
                     (''content'', VStr (n_content payload)),
                     (''created_by'', uid),
                     (''created_at'', VTime (now e))]
              in (Inr (pdict [(''message'', VStr ''Announcement posted'')]),
                  d\<lparr>announcement := insert_one (new_id e) item (announcement d)\<rparr>))))"

section \<open>Root variant: dashboard\<close>

text \<open>
  \<^verbatim>\<open>ObjectId(x)\<close> on a stored value: a string is parsed, an ObjectId is copied, \<^verbatim>\<open>None\<close>
  makes the library generate an identifier (an input of the request), anything else is a
  type error.
\<close>

definition object_id :: "oid \<Rightarrow> val \<Rightarrow> error + oid" where
  "object_id fresh v =
     (case v of
        VStr s \<Rightarrow> (case parse_oid s of Some i \<Rightarrow> Inr i | None \<Rightarrow> Inl InvalidId)
      | VOid i \<Rightarrow> Inr i
      | VNone \<Rightarrow> Inr fresh
      | _ \<Rightarrow> Inl TypeError)"

text \<open>\<^verbatim>\<open>to_object_id\<close> on a stored value: every exception becomes the 400.\<close>

definition to_object_id_val :: "oid \<Rightarrow> val \<Rightarrow> error + oid" where
  "to_object_id_val fresh v =
     (case object_id fresh v of
        Inr i \<Rightarrow> Inr i
      | Inl _ \<Rightarrow> Inl (HTTPException 400 ''Invalid id format''))"

fun map_err :: "('a \<Rightarrow> error + 'b) \<Rightarrow> 'a list \<Rightarrow> error + 'b list" where
  "map_err f [] = Inr []"
| "map_err f (x # xs) =
     bind_err (f x) (\<lambda>y. bind_err (map_err f xs) (\<lambda>ys. Inr (y # ys)))"

text \<open>
  \<^verbatim>\<open>sum([g.get("grade", 0) for g in docs])\<close>: numbers (and booleans) add up, anything
  else is a type error. Grades are kept as exact rationals; rounding is not modelled.
\<close>

fun num_of :: "val \<Rightarrow> error + rat" where
  "num_of (VInt i) = Inr (of_int i)"
| "num_of (VNum r) = Inr r"
| "num_of (VBool b) = Inr (if b then 1 else 0)"
| "num_of v = Inl TypeError"

fun py_sum :: "rat \<Rightarrow> val list \<Rightarrow> error + rat" where
  "py_sum acc [] = Inr acc"
| "py_sum acc (v # vs) = bind_err (num_of v) (\<lambda>x. py_sum (acc + x) vs)"

definition py_div :: "rat \<Rightarrow> rat \<Rightarrow> error + rat" where
  "py_div a b = (if b = 0 then Inl ZeroDivisionError else Inr (a / b))"

definition grade_values :: "document list \<Rightarrow> val list" where
  "grade_values docs = map (\<lambda>g. get_default (snd g) ''grade'' (VInt 0)) docs"

definition avg_grade :: "document list \<Rightarrow> error + val" where
  "avg_grade grade_docs =
     bind_err (py_sum 0 (grade_values grade_docs)) (\<lambda>s.
     bind_err (py_div s (of_nat (max (length grade_docs) 1))) (\<lambda>q. Inr (VNum q)))"

definition course_progress :: "db \<Rightarrow> val \<Rightarrow> document \<Rightarrow> error + pyobj" where
  "course_progress d uid c =
     (let cid = VStr (str_oid (fst c));
          att_count = length (find_many [(''student_id'', uid), (''course_id'', cid)]
                                (attendance d));
          grade_docs = find_many [(''student_id'', uid), (''course_id'', cid)] (grade d)
      in bind_err (avg_grade grade_docs) (\<lambda>avg.
           Inr (PDict [(''course'', pdict (str_id_dict c)),
                       (''attendance_records'', PV (VInt (int att_count))),
                       (''avg_grade'', PV avg)])))"

definition dashboard :: "db \<Rightarrow> env \<Rightarrow> pydict \<Rightarrow> outcome" where
  "dashboard d e user =
     proceed (getitem user ''_id'') d (\<lambda>uid.
       let enrolls = find_many [(''student_id'', uid)] (enrollment d)
       in proceed (map_err (\<lambda>en. bind_err (getitem (snd en) ''course_id'')
                                    (to_object_id_val (new_id e))) enrolls) d (\<lambda>course_ids.
            let courses = (if course_ids \<noteq> []
                           then filter (\<lambda>c. fst c \<in> set course_ids) (course d) else [])
            in proceed (map_err (course_progress d uid) courses) d (\<lambda>progress.
                 (Inr (PDict [(''user'', pdict user),
                              (''courses'', PList (map (\<lambda>c. pdict (str_id_dict c)) courses)),
                              (''progress'', PList progress)]),
                  d))))"

section \<open>Root variant: requests\<close>

text \<open>
  One constructor per route that writes, and the dashboard; the authenticated ones carry
  the Authorization header. The list routes only read and are left out.
\<close>

datatype request =
    Register RegisterRequest
  | Login LoginRequest
  | CreateCourse "string option" CourseCreate
  | EnrollCourse "string option" EnrollmentRequest
  | MarkAttendance "string option" AttendanceMarkRequest
  | AddGrade "string option" GradeCreate
  | CreateAnnouncement "string option" AnnouncementCreate
  | Dashboard "string option"

fun handle :: "(string \<Rightarrow> string) \<Rightarrow> db \<Rightarrow> env \<Rightarrow> request \<Rightarrow> outcome" where
  "handle H d e (Register p) = register H d e p"
| "handle H d e (Login p) = login H d e p"
| "handle H d e (CreateCourse a p) =
     proceed (get_current_user d (now e) a) d (create_course d e p)"
| "handle H d e (EnrollCourse a p) =
     proceed (get_current_user d (now e) a) d (enroll_course d e p)"
| "handle H d e (MarkAttendance a p) =
     proceed (get_current_user d (now e) a) d (mark_attendance d e p)"
| "handle H d e (AddGrade a p) =
     proceed (get_current_user d (now e) a) d (add_grade d e p)"
| "handle H d e (CreateAnnouncement a p) =
     proceed (get_current_user d (now e) a) d (create_announcement d e p)"
| "handle H d e (Dashboard a) =
     proceed (get_current_user d (now e) a) d (dashboard d e)"

fun run :: "(string \<Rightarrow> string) \<Rightarrow> db \<Rightarrow> (env \<times> request) list \<Rightarrow> db" where
  "run H d [] = d"
| "run H d (er # rest) = run H (snd (handle H d (fst er) (snd er))) rest"

fun authorization_of :: "request \<Rightarrow> string option option" where
  "authorization_of (Register p) = None"
| "authorization_of (Login p) = None"
| "authorization_of (CreateCourse a p) = Some a"
| "authorization_of (EnrollCourse a p) = Some a"
| "authorization_of (MarkAttendance a p) = Some a"
| "authorization_of (AddGrade a p) = Some a"
| "authorization_of (CreateAnnouncement a p) = Some a"
| "authorization_of (Dashboard a) = Some a"

section \<open>Backend variant: authentication gate\<close>

text \<open>
  The session query \<^verbatim>\<open>{"token": token, "expires_at": {"$gt": now}}\<close>: the first
  session with that token whose expiry is an instant after \<open>now\<close>.
\<close>

definition live_session :: "string \<Rightarrow> time \<Rightarrow> document \<Rightarrow> bool" where
  "live_session token t sess \<longleftrightarrow>
     matches [(''token'', VStr token)] sess \<and>
     (case map_of (snd sess) ''expires_at'' of Some (VTime x) \<Rightarrow> t < x | _ \<Rightarrow> False)"

definition backend_get_current_user :: "db \<Rightarrow> env \<Rightarrow> string option \<Rightarrow> error + pydict" where
  "backend_get_current_user d e authorization =
     (case authorization of
        None \<Rightarrow> Inl (HTTPException 401 ''Missing token'')
      | Some a \<Rightarrow>
          if a = [] \<or> \<not> startswith a ''Bearer ''
          then Inl (HTTPException 401 ''Missing token'')
          else
            bind_err (split1_second a) (\<lambda>token.
              (case find (live_session token (now e)) (session d) of
                 None \<Rightarrow> Inl (HTTPException 401 ''Invalid or expired token'')
               | Some sess \<Rightarrow>
                   bind_err (getitem (snd sess) ''student_id'') (\<lambda>sid.
                   bind_err (object_id (new_id3 e) sid) (\<lambda>i.
                     (case find_one_id i (student d) of
                        None \<Rightarrow> Inl (HTTPException 401 ''User not found'')
                      | Some user \<Rightarrow> Inr (str_id_dict user)))))))"

section \<open>Backend variant: handlers\<close>

text \<open>
  The body of course creation is the \<^verbatim>\<open>Course\<close> schema itself, so a client may send
  \<^verbatim>\<open>created_at\<close>; it defaults to the current instant.
\<close>

record Course =
  b_title :: string
  b_code :: string
  b_description :: "string option"
  b_instructor :: "string option"
  b_created_at :: "time option"

definition course_dict :: "time \<Rightarrow> Course \<Rightarrow> pydict" where
  "course_dict t c =
     [(''title'', VStr (b_title c)),
      (''code'', VStr (b_code c)),
      (''description'', opt_str (b_description c)),
      (''instructor'', opt_str (b_instructor c)),
      (''created_at'', VTime (case b_created_at c of None \<Rightarrow> t | Some x \<Rightarrow> x))]"

definition backend_register :: "db \<Rightarrow> env \<Rightarrow> RegisterRequest \<Rightarrow> outcome" where
  "backend_register d e body =
     (case find_one [(''email'', VStr (r_email body))] (student d) of
        Some _ \<Rightarrow> (Inl (HTTPException 400 ''Email already registered''), d)
      | None \<Rightarrow>
          let student_doc =
                [(''name'', VStr (r_name body)),
                 (''email'', VStr (r_email body)),
                 (''password'', VStr (r_password body)),
                 (''role'', VStr ''student''),
                 (''created_at'', VTime (now e))];
              sid = str_oid (new_id e);
              session_doc =
                [(''student_id'', VStr sid),
                 (''token'', VStr (new_token e)),
                 (''expires_at'', VTime (now e + days7)),
                 (''created_at'', VTime (now e))]
          in (Inr (PDict [(''token'', PV (VStr (new_token e))),
                          (''user'', pdict [(''_id'', VStr sid),
                                            (''name'', VStr (r_name body)),
                                            (''email'', VStr (r_email body)),
                                            (''role'', VStr ''student'')])]),
              d\<lparr>student := insert_one (new_id e) student_doc (student d),
                session := insert_one (new_id2 e) session_doc (session d)\<rparr>))"

definition backend_login :: "db \<Rightarrow> env \<Rightarrow> LoginRequest \<Rightarrow> outcome" where
  "backend_login d e body =
     (case find_one [(''email'', VStr (l_email body)),
                     (''password'', VStr (l_password body))] (student d) of
        None \<Rightarrow> (Inl (HTTPException 401 ''Invalid credentials''), d)
      | Some user \<Rightarrow>
          let session_doc =
                [(''student_id'', VStr (str_oid (fst user))),
                 (''token'', VStr (new_token e)),
                 (''expires_at'', VTime (now e + days7)),
                 (''created_at'', VTime (now e))];
              d' = d\<lparr>session := insert_one (new_id e) session_doc (session d)\<rparr>
          in proceed (user_view user) d' (\<lambda>view.
               (Inr (PDict [(''token'', PV (VStr (new_token e))), (''user'', pdict view)]),
                d')))"

definition backend_create_course :: "db \<Rightarrow> env \<Rightarrow> Course \<Rightarrow> pydict \<Rightarrow> outcome" where
  "backend_create_course d e c user =
     (let data = course_dict (now e) c
      in (Inr (pdict (data @ [(''_id'', VStr (str_oid (new_id e)))])),
          d\<lparr>course := insert_one (new_id e) data (course d)\<rparr>))"

text \<open>\<^verbatim>\<open>ObjectId(body.course_id)\<close> outside any handler: the exception is not caught.\<close>

definition backend_enroll :: "db \<Rightarrow> env \<Rightarrow> EnrollmentRequest \<Rightarrow> pydict \<Rightarrow> outcome" where
  "backend_enroll d e body user =
     proceed (object_id (new_id e) (VStr (e_course_id body))) d (\<lambda>cid.
       (case find_one_id cid (course d) of
          None \<Rightarrow> (Inl (HTTPException 404 ''Course not found''), d)
        | Some _ \<Rightarrow>
            proceed (getitem user ''_id'') d (\<lambda>uid.
              (case find_one [(''student_id'', uid),
                              (''course_id'', VStr (e_course_id body))] (enrollment d) of
                 Some ex \<Rightarrow> (Inr (pdict (str_id_dict ex)), d)
               | None \<Rightarrow>
                   let enr = [(''student_id'', uid),
                              (''course_id'', VStr (e_course_id body)),
                              (''created_at'', VTime (now e))]
                   in (Inr (pdict (enr @ [(''_id'', VStr (str_oid (new_id e)))])),
                       d\<lparr>enrollment := insert_one (new_id e) enr (enrollment d)\<rparr>)))))"

text \<open>
  The \<^verbatim>\<open>Attendance\<close> schema checks the status against \<^verbatim>\<open>^(present|absent)$\<close> with
  \<^verbatim>\<open>re.match\<close>, where \<^verbatim>\<open>$\<close> also matches before a final newline.
\<close>

definition status_ok :: "string \<Rightarrow> bool" where
  "status_ok s \<longleftrightarrow> s \<in> set [''present'', ''absent'', ''present'' @ [CHR 0x0A],
     ''absent'' @ [CHR 0x0A]]"

definition backend_mark_attendance ::
  "db \<Rightarrow> env \<Rightarrow> AttendanceMarkRequest \<Rightarrow> pydict \<Rightarrow> outcome" where
  "backend_mark_attendance d e body user =
     proceed (object_id (new_id e) (VStr (a_course_id body))) d (\<lambda>cid.
       (case find_one_id cid (course d) of
          None \<Rightarrow> (Inl (HTTPException 404 ''Course not found''), d)
        | Some _ \<Rightarrow>
            proceed (getitem user ''_id'') d (\<lambda>uid.
              if \<not> status_ok (a_status body) then (Inl ValidationError, d)
              else
                let att = [(''student_id'', uid),
                           (''course_id'', VStr (a_course_id body)),
                           (''date'', VTime (now e)),
                           (''status'', VStr (a_status body))]
                in (Inr (pdict (att @ [(''_id'', VStr (str_oid (new_id e)))])),
                    d\<lparr>attendance := insert_one (new_id e) att (attendance d)\<rparr>))))"

definition backend_add_grade :: "db \<Rightarrow> env \<Rightarrow> GradeCreate \<Rightarrow> pydict \<Rightarrow> outcome" where
  "backend_add_grade d e body user =
     proceed (object_id (new_id e) (VStr (g_course_id body))) d (\<lambda>cid.
       (case find_one_id cid (course d) of
          None \<Rightarrow> (Inl (HTTPException 404 ''Course not found''), d)
        | Some _ \<Rightarrow>
            proceed (getitem user ''_id'') d (\<lambda>uid.
              let g = [(''student_id'', uid),
                       (''course_id'', VStr (g_course_id body)),
                       (''grade'', VNum (g_grade body)),
                       (''label'', opt_str (g_label body)),
                       (''created_at'', VTime (now e))]
              in (Inr (pdict (g @ [(''_id'', VStr (str_oid (new_id e)))])),
                  d\<lparr>grade := insert_one (new_id e) g (grade d)\<rparr>))))"

definition backend_add_announcement ::
  "db \<Rightarrow> env \<Rightarrow> AnnouncementCreate \<Rightarrow> pydict \<Rightarrow> outcome" where
  "backend_add_announcement d e body user =
     proceed (object_id (new_id e) (VStr (n_course_id body))) d (\<lambda>cid.
       (case find_one_id cid (course d) of
          None \<Rightarrow> (Inl (HTTPException 404 ''Course not found''), d)
        | Some _ \<Rightarrow>
            let a = [(''course_id'', VStr (n_course_id body)),
                     (''title'', VStr (n_title body)),
                     (''content'', VStr (n_content body)),
                     (''created_at'', VTime (now e))]
            in (Inr (pdict (a @ [(''_id'', VStr (str_oid (new_id e)))])),
                d\<lparr>announcement := insert_one (new_id e) a (announcement d)\<rparr>)))"

text \<open>\<^verbatim>\<open>sum(...) / len(grades) if grades else 0\<close>.\<close>

definition backend_avg :: "document list \<Rightarrow> error + val" where
  "backend_avg grades =
     (if grades \<noteq> []
      then bind_err (py_sum 0 (grade_values grades)) (\<lambda>s.
           bind_err (py_div s (of_nat (length grades))) (\<lambda>q. Inr (VNum q)))
      else Inr (VInt 0))"

text \<open>One round of the dashboard loop; \<open>None\<close> is the \<^verbatim>\<open>continue\<close>.\<close>

definition backend_progress :: "db \<Rightarrow> env \<Rightarrow> val \<Rightarrow> document \<Rightarrow> error + pyobj option" where
  "backend_progress d e uid en =
     bind_err (getitem (snd en) ''course_id'') (\<lambda>cid.
     bind_err (object_id (new_id e) cid) (\<lambda>i.
       (case find_one_id i (course d) of
          None \<Rightarrow> Inr None
        | Some c \<Rightarrow>
            let at_count = length (find_many [(''student_id'', uid), (''course_id'', cid)]
                                     (attendance d));
                grades = find_many [(''student_id'', uid), (''course_id'', cid)] (grade d)
            in bind_err (backend_avg grades) (\<lambda>avg.
                 Inr (Some (PDict [(''course'', pdict (str_id_dict c)),
                                   (''attendance_records'', PV (VInt (int at_count))),
                                   (''avg_grade'', PV avg)]))))))"

definition backend_dashboard :: "db \<Rightarrow> env \<Rightarrow> pydict \<Rightarrow> outcome" where
  "backend_dashboard d e user =
     proceed (getitem user ''_id'') d (\<lambda>uid.
       proceed (map_err (backend_progress d e uid)
                  (find_many [(''student_id'', uid)] (enrollment d))) d (\<lambda>rounds.
         (Inr (PDict [(''progress'', PList (concat (map (\<lambda>r. case r of None \<Rightarrow> []
                                                            | Some p \<Rightarrow> [p]) rounds)))]),
          d)))"

definition demo_courses :: "time \<Rightarrow> pydict list" where
  "demo_courses t =
     [course_dict t \<lparr>b_title = ''Intro to Programming'', b_code = ''CS101'',
        b_description = Some ''Learn Python basics'', b_instructor = Some ''Dr. Ada'',
        b_created_at = None\<rparr>,
      course_dict t \<lparr>b_title = ''Data Structures'', b_code = ''CS201'',
        b_description = Some ''Arrays, Trees, Graphs'', b_instructor = Some ''Dr. Knuth'',
        b_created_at = None\<rparr>,
      course_dict t \<lparr>b_title = ''Databases'', b_code = ''CS301'',
        b_description = Some ''SQL/NoSQL fundamentals'', b_instructor = Some ''Dr. Codd'',
        b_created_at = None\<rparr>]"

text \<open>\<^verbatim>\<open>insert_many\<close> appends the documents in order, one generated identifier each.\<close>

definition seed :: "db \<Rightarrow> env \<Rightarrow> outcome" where
  "seed d e =
     (if length (course d) > 0 then (Inr (pdict [(''message'', VStr ''Already seeded'')]), d)
      else
        (Inr (pdict [(''message'', VStr ''Seeded''),
                     (''count'', VInt (int (length (demo_courses (now e)))))]),
         d\<lparr>course := course d @ zip [new_id e, new_id2 e, new_id3 e]
                                    (demo_courses (now e))\<rparr>))"

section \<open>Backend variant: requests\<close>

datatype backend_request =
    BRegister RegisterRequest
  | BLogin LoginRequest
  | BCreateCourse "string option" Course
  | BEnroll "string option" EnrollmentRequest
  | BMarkAttendance "string option" AttendanceMarkRequest
  | BAddGrade "string option" GradeCreate
  | BAddAnnouncement "string option" AnnouncementCreate
  | BDashboard "string option"
  | BSeed

fun backend_handle :: "db \<Rightarrow> env \<Rightarrow> backend_request \<Rightarrow> outcome" where
  "backend_handle d e (BRegister p) = backend_register d e p"
| "backend_handle d e (BLogin p) = backend_login d e p"
| "backend_handle d e (BCreateCourse a p) =
     proceed (backend_get_current_user d e a) d (backend_create_course d e p)"
| "backend_handle d e (BEnroll a p) =
     proceed (backend_get_current_user d e a) d (backend_enroll d e p)"
| "backend_handle d e (BMarkAttendance a p) =
     proceed (backend_get_current_user d e a) d (backend_mark_attendance d e p)"
| "backend_handle d e (BAddGrade a p) =
     proceed (backend_get_current_user d e a) d (backend_add_grade d e p)"
| "backend_handle d e (BAddAnnouncement a p) =
     proceed (backend_get_current_user d e a) d (backend_add_announcement d e p)"
| "backend_handle d e (BDashboard a) =
     proceed (backend_get_current_user d e a) d (backend_dashboard d e)"
| "backend_handle d e BSeed = seed d e"

fun backend_run :: "db \<Rightarrow> (env \<times> backend_request) list \<Rightarrow> db" where
  "backend_run d [] = d"
| "backend_run d (er # rest) = backend_run (snd (backend_handle d (fst er) (snd er))) rest"

section \<open>Sample data\<close>

text \<open>A stand-in for the hash, and inputs for the worked examples below.\<close>

definition toy_hash :: "string \<Rightarrow> string" where
  "toy_hash s = ''sha256:'' @ s"

definition oid1 :: oid where "oid1 = ObjectId ''000000000000000000000001''"
definition oid2 :: oid where "oid2 = ObjectId ''000000000000000000000002''"
definition oid3 :: oid where "oid3 = ObjectId ''000000000000000000000003''"
definition oid4 :: oid where "oid4 = ObjectId ''000000000000000000000004''"
definition oid5 :: oid where "oid5 = ObjectId ''000000000000000000000005''"
definition oid6 :: oid where "oid6 = ObjectId ''000000000000000000000006''"

definition env1 :: env where
  "env1 = \<lparr>now = 100, new_token = ''tok1'', new_id = oid1, new_id2 = oid2, new_id3 = oid3\<rparr>"

definition env2 :: env where
  "env2 = \<lparr>now = 200, new_token = ''tok2'', new_id = oid4, new_id2 = oid5, new_id3 = oid6\<rparr>"

definition alice :: RegisterRequest where
  "alice = \<lparr>r_name = ''A'', r_email = ''a@x.com'', r_password = ''p1''\<rparr>"

definition alice_again :: RegisterRequest where
  "alice_again = \<lparr>r_name = ''B'', r_email = ''a@x.com'', r_password = ''p2''\<rparr>"

definition alice_login :: LoginRequest where
  "alice_login = \<lparr>l_email = ''a@x.com'', l_password = ''p1''\<rparr>"

text \<open>How many enrollments a student id has in a course id.\<close>

definition pair_count :: "val \<Rightarrow> val \<Rightarrow> db \<Rightarrow> nat" where
  "pair_count s c d =
     length (find_many [(''student_id'', s), (''course_id'', c)] (enrollment d))"

definition env3 :: env where
  "env3 = \<lparr>now = 300, new_token = ''tok3'', new_id = ObjectId ''000000000000000000000007'',
     new_id2 = ObjectId ''000000000000000000000008'',
     new_id3 = ObjectId ''000000000000000000000009''\<rparr>"

definition env4 :: env where
  "env4 = \<lparr>now = 400, new_token = ''tok4'', new_id = ObjectId ''00000000000000000000000a'',
     new_id2 = ObjectId ''00000000000000000000000b'',
     new_id3 = ObjectId ''00000000000000000000000c''\<rparr>"

definition db_course :: db where
  "db_course = empty_db\<lparr>course :=
     [(ObjectId ''0000000000000000000000c1'',
       [(''code'', VStr ''CS101''), (''title'', VStr ''Intro to Programming'')])]\<rparr>"

definition enroll_c1 :: EnrollmentRequest where
  "enroll_c1 = \<lparr>e_course_id = ''0000000000000000000000c1''\<rparr>"

definition enroll_seeded :: EnrollmentRequest where
  "enroll_seeded = \<lparr>e_course_id = ''000000000000000000000001''\<rparr>"

definition db_enrolled :: db where
  "db_enrolled = run toy_hash db_course
     [(env1, Register alice), (env2, EnrollCourse (Some ''Bearer tok1'') enroll_c1)]"

definition backend_db_enrolled :: db where
  "backend_db_enrolled = backend_run empty_db
     [(env1, BSeed), (env2, BRegister alice), (env3, BEnroll (Some ''Bearer tok2'') enroll_seeded)]"

definition cs101 :: Course where
  "cs101 = \<lparr>b_title = ''Intro to Programming'', b_code = ''CS101'', b_description = None,
     b_instructor = None, b_created_at = None\<rparr>"

definition cs101_create :: CourseCreate where
  "cs101_create = \<lparr>c_code = ''CS101'', c_title = ''Intro to Programming'',
     c_description = None, c_instructor = None, c_capacity = Some 100\<rparr>"

definition db_alice :: db where
  "db_alice = snd (register toy_hash empty_db env1 alice)"

definition backend_db_alice :: db where
  "backend_db_alice = snd (backend_register empty_db env1 alice)"

text \<open>A hash with a collision, to show two credentials that differ and hash alike.\<close>

definition weak_hash :: "string \<Rightarrow> string" where
  "weak_hash s = take 1 s"







definition db_registered :: db where
  "db_registered = run toy_hash db_course [(env1, Register alice)]"


definition c1_doc :: document where
  "c1_doc = (ObjectId ''0000000000000000000000c1'',
     [(''code'', VStr ''CS101''), (''title'', VStr ''Intro to Programming'')])"

definition seeded_doc :: document where
  "seeded_doc = (ObjectId ''000000000000000000000001'',
     [(''title'', VStr ''Intro to Programming''), (''code'', VStr ''CS101''),
      (''description'', VStr ''Learn Python basics''), (''instructor'', VStr ''Dr. Ada''),
      (''created_at'', VTime 100)])"

definition alice_view :: pydict where
  "alice_view = [(''_id'', VStr ''000000000000000000000001''), (''name'', VStr ''A''),
     (''email'', VStr ''a@x.com''), (''role'', VStr ''student'')]"

definition backend_alice_doc :: pydict where
  "backend_alice_doc = [(''_id'', VStr ''000000000000000000000004''), (''name'', VStr ''A''),
     (''email'', VStr ''a@x.com''), (''password'', VStr ''p1''), (''role'', VStr ''student''),
     (''created_at'', VTime 200)]"

definition backend_enrollment_doc :: document where
  "backend_enrollment_doc = (ObjectId ''000000000000000000000007'',
     [(''student_id'', VStr ''000000000000000000000004''),
      (''course_id'', VStr ''000000000000000000000001''), (''created_at'', VTime 300)])"

fun backend_authorization_of :: "backend_request \<Rightarrow> string option option" where
  "backend_authorization_of (BRegister p) = None"
| "backend_authorization_of (BLogin p) = None"
| "backend_authorization_of (BCreateCourse a p) = Some a"
| "backend_authorization_of (BEnroll a p) = Some a"
| "backend_authorization_of (BMarkAttendance a p) = Some a"
| "backend_authorization_of (BAddGrade a p) = Some a"
| "backend_authorization_of (BAddAnnouncement a p) = Some a"
| "backend_authorization_of (BDashboard a) = Some a"
| "backend_authorization_of BSeed = None"


definition enroll_c1_upper :: EnrollmentRequest where
  "enroll_c1_upper = \<lparr>e_course_id = ''0000000000000000000000C1''\<rparr>"

definition enroll_a_lower :: EnrollmentRequest where
  "enroll_a_lower = \<lparr>e_course_id = ''00000000000000000000000a''\<rparr>"

definition enroll_a_upper :: EnrollmentRequest where
  "enroll_a_upper = \<lparr>e_course_id = ''00000000000000000000000A''\<rparr>"

definition backend_db_enrolled_a :: db where
  "backend_db_enrolled_a = backend_run empty_db
     [(env4, BSeed), (env1, BRegister alice),
      (env2, BEnroll (Some ''Bearer tok1'') enroll_a_lower)]"

definition enrollment_doc :: document where
  "enrollment_doc = (ObjectId ''000000000000000000000004'',
     [(''student_id'', VStr ''000000000000000000000001''),
      (''course_id'', VStr ''0000000000000000000000c1''),
      (''status'', VStr ''enrolled''), (''enrolled_at'', VTime 200)])"

section \<open>Basic facts\<close>

lemma proceed_simps [simp]:
  "proceed (Inl err) d k = (Inl err, d)"
  "proceed (Inr x) d k = k x"
  by (simp_all add: proceed_def)

lemma bind_err_simps [simp]:
  "bind_err (Inl err) k = Inl err"
  "bind_err (Inr x) k = k x"
  by (simp_all add: bind_err_def)

lemma proceed_cases:
  "proceed r d k = (case r of Inl err \<Rightarrow> (Inl err, d) | Inr x \<Rightarrow> k x)"
  by (simp add: proceed_def)

lemma find_Some_mem: "find P xs = Some x \<Longrightarrow> x \<in> set xs \<and> P x"
  by (induction xs) (auto split: if_splits)

lemma find_append_Some: "find P xs = Some x \<Longrightarrow> find P (xs @ ys) = Some x"
  by (induction xs) auto

lemma find_one_append: "find_one flt xs = Some x \<Longrightarrow> find_one flt (xs @ ys) = Some x"
  by (simp add: find_one_def find_append_Some)

text \<open>Frames: what each handler leaves alone.\<close>

lemma register_grows:
  "\<exists>xs. student (snd (register H d e p)) = student d @ xs"
  by (simp add: register_def insert_one_def Let_def split: option.splits)

lemma login_student: "student (snd (login H d e p)) = student d"
  by (simp add: login_def insert_one_def Let_def proceed_cases split: option.splits sum.splits)

lemma create_course_frame:
  "student (snd (create_course d e p u)) = student d"
  "enrollment (snd (create_course d e p u)) = enrollment d"
  by (simp_all add: create_course_def insert_one_def Let_def proceed_cases split: option.splits sum.splits)

lemma enroll_course_student: "student (snd (enroll_course d e p u)) = student d"
  by (simp add: enroll_course_def insert_one_def Let_def proceed_cases split: option.splits sum.splits)

lemma mark_attendance_frame:
  "student (snd (mark_attendance d e p u)) = student d"
  "enrollment (snd (mark_attendance d e p u)) = enrollment d"
  by (simp_all add: mark_attendance_def insert_one_def Let_def proceed_cases split: option.splits sum.splits)

lemma add_grade_frame:
  "student (snd (add_grade d e p u)) = student d"
  "enrollment (snd (add_grade d e p u)) = enrollment d"
  by (simp_all add: add_grade_def insert_one_def Let_def proceed_cases split: option.splits sum.splits)

lemma create_announcement_frame:
  "student (snd (create_announcement d e p u)) = student d"
  "enrollment (snd (create_announcement d e p u)) = enrollment d"
  by (simp_all add: create_announcement_def insert_one_def Let_def proceed_cases split: option.splits sum.splits)

lemma dashboard_frame: "snd (dashboard d e u) = d"
  by (simp add: dashboard_def Let_def proceed_cases split: option.splits sum.splits)

lemma handle_student_grows:
  "\<exists>xs. student (snd (handle H d e r)) = student d @ xs"
  by (cases r)
     (simp_all add: register_grows login_student create_course_frame enroll_course_student
        mark_attendance_frame add_grade_frame create_announcement_frame dashboard_frame
        proceed_cases split: sum.splits)

lemma run_student_grows: "\<exists>xs. student (run H d rs) = student d @ xs"
proof (induction rs arbitrary: d)
  case Nil
  show ?case by simp
next
  case (Cons er rs)
  obtain xs where 1: "student (snd (handle H d (fst er) (snd er))) = student d @ xs"
    using handle_student_grows by blast
  obtain ys where 2: "student (run H (snd (handle H d (fst er) (snd er))) rs)
      = student (snd (handle H d (fst er) (snd er))) @ ys"
    using Cons.IH by blast
  show ?case using 1 2 by simp
qed

lemma find_snoc_hit: "P x \<Longrightarrow> find P (xs @ [x]) \<noteq> None"
  by (auto simp: find_None_iff)

lemma register_stores_email:
  assumes "fst (register H d e p) = Inr r"
  shows "find_one [(''email'', VStr (r_email p))] (student (snd (register H d e p))) \<noteq> None"
proof (cases "find_one [(''email'', VStr (r_email p))] (student d)")
  case None
  have "matches [(''email'', VStr (r_email p))]
          (new_id e, [(''name'', VStr (r_name p)), (''email'', VStr (r_email p)),
             (''password_hash'', VStr (H (r_password p))), (''role'', VStr ''student''),
             (''is_active'', VBool True), (''created_at'', VTime (now e)),
             (''updated_at'', VTime (now e))])"
    by (simp add: matches_def)
  then show ?thesis
    using None by (simp add: register_def Let_def insert_one_def find_one_def find_snoc_hit)
next
  case (Some doc)
  then show ?thesis using assms by (simp add: register_def)
qed

lemma register_conflict:
  "find_one [(''email'', VStr (r_email p))] (student d) \<noteq> None \<Longrightarrow>
     register H d e p = (Inl (HTTPException 400 ''Email already registered''), d)"
  by (auto simp: register_def split: option.splits)


lemma backend_register_grows:
  "\<exists>xs. student (snd (backend_register d e p)) = student d @ xs"
  by (simp add: backend_register_def insert_one_def Let_def split: option.splits)

lemma backend_login_frame:
  "student (snd (backend_login d e p)) = student d"
  "enrollment (snd (backend_login d e p)) = enrollment d"
  by (simp_all add: backend_login_def insert_one_def Let_def proceed_cases
      split: option.splits sum.splits)

lemma backend_create_course_frame:
  "student (snd (backend_create_course d e p u)) = student d"
  "enrollment (snd (backend_create_course d e p u)) = enrollment d"
  by (simp_all add: backend_create_course_def insert_one_def Let_def)

lemma backend_enroll_student: "student (snd (backend_enroll d e p u)) = student d"
  by (simp add: backend_enroll_def insert_one_def Let_def proceed_cases
      split: option.splits sum.splits)

lemma backend_mark_attendance_frame:
  "student (snd (backend_mark_attendance d e p u)) = student d"
  "enrollment (snd (backend_mark_attendance d e p u)) = enrollment d"
  by (simp_all add: backend_mark_attendance_def insert_one_def Let_def proceed_cases
      split: option.splits sum.splits)

lemma backend_add_grade_frame:
  "student (snd (backend_add_grade d e p u)) = student d"
  "enrollment (snd (backend_add_grade d e p u)) = enrollment d"
  by (simp_all add: backend_add_grade_def insert_one_def Let_def proceed_cases
      split: option.splits sum.splits)

lemma backend_add_announcement_frame:
  "student (snd (backend_add_announcement d e p u)) = student d"
  "enrollment (snd (backend_add_announcement d e p u)) = enrollment d"
  by (simp_all add: backend_add_announcement_def insert_one_def Let_def proceed_cases
      split: option.splits sum.splits)

lemma backend_dashboard_frame: "snd (backend_dashboard d e u) = d"
  by (simp add: backend_dashboard_def Let_def proceed_cases split: option.splits sum.splits)

lemma seed_frame:
  "student (snd (seed d e)) = student d"
  "enrollment (snd (seed d e)) = enrollment d"
  by (simp_all add: seed_def)

lemma backend_handle_student_grows:
  "\<exists>xs. student (snd (backend_handle d e r)) = student d @ xs"
  by (cases r)
     (simp_all add: backend_register_grows backend_login_frame backend_create_course_frame
        backend_enroll_student backend_mark_attendance_frame backend_add_grade_frame
        backend_add_announcement_frame backend_dashboard_frame seed_frame
        proceed_cases split: sum.splits)

lemma backend_run_student_grows: "\<exists>xs. student (backend_run d rs) = student d @ xs"
proof (induction rs arbitrary: d)
  case Nil
  show ?case by simp
next
  case (Cons er rs)
  obtain xs where 1: "student (snd (backend_handle d (fst er) (snd er))) = student d @ xs"
    using backend_handle_student_grows by blast
  obtain ys where 2: "student (backend_run (snd (backend_handle d (fst er) (snd er))) rs)
      = student (snd (backend_handle d (fst er) (snd er))) @ ys"
    using Cons.IH by blast
  show ?case using 1 2 by simp
qed

lemma backend_register_stores_email:
  assumes "fst (backend_register d e p) = Inr r"
  shows "find_one [(''email'', VStr (r_email p))] (student (snd (backend_register d e p)))
           \<noteq> None"
proof (cases "find_one [(''email'', VStr (r_email p))] (student d)")
  case None
  have "matches [(''email'', VStr (r_email p))]
          (new_id e, [(''name'', VStr (r_name p)), (''email'', VStr (r_email p)),
             (''password'', VStr (r_password p)), (''role'', VStr ''student''),
             (''created_at'', VTime (now e))])"
    by (simp add: matches_def)
  then show ?thesis
    using None
    by (simp add: backend_register_def Let_def insert_one_def find_one_def find_snoc_hit)
next
  case (Some doc)
  then show ?thesis using assms by (simp add: backend_register_def)
qed

lemma backend_register_conflict:
  "find_one [(''email'', VStr (r_email p))] (student d) \<noteq> None \<Longrightarrow>
     backend_register d e p = (Inl (HTTPException 400 ''Email already registered''), d)"
  by (auto simp: backend_register_def split: option.splits)

lemma find_one_grows:
  "find_one flt xs \<noteq> None \<Longrightarrow> find_one flt (xs @ ys) \<noteq> None"
  using find_one_append by fastforce

text \<open>
  Claim C5. Once a registration with an email has succeeded, every later registration
  with the same email, after any sequence of further requests, fails with the 400
  ``Email already registered'' and leaves the database as it was. Both variants.
\<close>

theorem register_twice_conflict:
  "(fst (register H d e p) = Inr r \<and> r_email p' = r_email p \<longrightarrow>
      register H (run H (snd (register H d e p)) rs) e' p' =
        (Inl (HTTPException 400 ''Email already registered''),
         run H (snd (register H d e p)) rs))
   \<and> (fst (backend_register d e p) = Inr r \<and> r_email p' = r_email p \<longrightarrow>
      backend_register (backend_run (snd (backend_register d e p)) brs) e' p' =
        (Inl (HTTPException 400 ''Email already registered''),
         backend_run (snd (backend_register d e p)) brs))"
proof (intro conjI impI)
  assume a: "fst (register H d e p) = Inr r \<and> r_email p' = r_email p"
  let ?d1 = "snd (register H d e p)"
  obtain xs where "student (run H ?d1 rs) = student ?d1 @ xs"
    using run_student_grows by blast
  moreover have "find_one [(''email'', VStr (r_email p'))] (student ?d1) \<noteq> None"
    using a register_stores_email by simp
  ultimately have "find_one [(''email'', VStr (r_email p'))] (student (run H ?d1 rs)) \<noteq> None"
    by (simp add: find_one_grows)
  then show "register H (run H ?d1 rs) e' p' =
      (Inl (HTTPException 400 ''Email already registered''), run H ?d1 rs)"
    by (rule register_conflict)
next
  assume a: "fst (backend_register d e p) = Inr r \<and> r_email p' = r_email p"
  let ?d1 = "snd (backend_register d e p)"
  obtain xs where "student (backend_run ?d1 brs) = student ?d1 @ xs"
    using backend_run_student_grows by blast
  moreover have "find_one [(''email'', VStr (r_email p'))] (student ?d1) \<noteq> None"
    using a backend_register_stores_email by simp
  ultimately have
    "find_one [(''email'', VStr (r_email p'))] (student (backend_run ?d1 brs)) \<noteq> None"
    by (simp add: find_one_grows)
  then show "backend_register (backend_run ?d1 brs) e' p' =
      (Inl (HTTPException 400 ''Email already registered''), backend_run ?d1 brs)"
    by (rule backend_register_conflict)
qed


theorem register_twice_conflict_witness:
  "fst (register toy_hash empty_db env1 alice) =
     Inr (PDict [(''token'', PV (VStr ''tok1'')),
                 (''user'', PDict [(''_id'', PV (VStr ''000000000000000000000001'')),
                                   (''name'', PV (VStr ''A'')),
                                   (''email'', PV (VStr ''a@x.com'')),
                                   (''role'', PV (VStr ''student''))])])
   \<and> r_email alice_again = r_email alice
   \<and> fst (register toy_hash
            (run toy_hash (snd (register toy_hash empty_db env1 alice))
               [(env2, Login alice_login)]) env2 alice_again) =
       Inl (HTTPException 400 ''Email already registered'')
   \<and> fst (backend_register empty_db env1 alice) =
     Inr (PDict [(''token'', PV (VStr ''tok1'')),
                 (''user'', PDict [(''_id'', PV (VStr ''000000000000000000000001'')),
                                   (''name'', PV (VStr ''A'')),
                                   (''email'', PV (VStr ''a@x.com'')),
                                   (''role'', PV (VStr ''student''))])])
   \<and> fst (backend_register
            (backend_run (snd (backend_register empty_db env1 alice))
               [(env2, BLogin alice_login)]) env2 alice_again) =
       Inl (HTTPException 400 ''Email already registered'')"
proof -
  let ?r = "PDict [(''token'', PV (VStr ''tok1'')),
                 (''user'', PDict [(''_id'', PV (VStr ''000000000000000000000001'')),
                                   (''name'', PV (VStr ''A'')),
                                   (''email'', PV (VStr ''a@x.com'')),
                                   (''role'', PV (VStr ''student''))])]"
  have h1: "fst (register toy_hash empty_db env1 alice) = Inr ?r"
    by (simp add: register_def empty_db_def env1_def alice_def find_one_def pdict_def oid1_def
        Let_def)
  have h2: "fst (backend_register empty_db env1 alice) = Inr ?r"
    by (simp add: backend_register_def empty_db_def env1_def alice_def find_one_def pdict_def
        oid1_def Let_def)
  have h3: "r_email alice_again = r_email alice"
    by (simp add: alice_def alice_again_def)
  show ?thesis
    using h1 h2 h3
      register_twice_conflict [of toy_hash empty_db env1 alice ?r alice_again
        "[(env2, Login alice_login)]" env2 "[(env2, BLogin alice_login)]"]
    by simp
qed

lemma find_None_filter: "find P xs = None \<Longrightarrow> filter P xs = []"
  by (induction xs) (auto split: if_splits)

lemma matches_pair:
  "matches [(''student_id'', s), (''course_id'', c)] doc \<longleftrightarrow>
     map_of (snd doc) ''student_id'' = Some s \<and> map_of (snd doc) ''course_id'' = Some c"
  by (simp add: matches_def)

lemma pair_count_insert:
  assumes none: "find_one [(''student_id'', uid), (''course_id'', cid)] (enrollment d) = None"
    and inv: "\<forall>s c. pair_count s c d \<le> 1"
    and f1: "map_of flds ''student_id'' = Some uid"
    and f2: "map_of flds ''course_id'' = Some cid"
  shows "pair_count s c (d\<lparr>enrollment := insert_one i flds (enrollment d)\<rparr>) \<le> 1"
proof (cases "s = uid \<and> c = cid")
  case True
  have "filter (matches [(''student_id'', uid), (''course_id'', cid)]) (enrollment d) = []"
    using none by (simp add: find_one_def find_None_filter)
  then show ?thesis
    using True f1 f2 by (simp add: pair_count_def find_many_def insert_one_def matches_pair)
next
  case False
  then have "\<not> matches [(''student_id'', s), (''course_id'', c)] (i, flds)"
    using f1 f2 by (auto simp: matches_pair)
  then have "pair_count s c (d\<lparr>enrollment := insert_one i flds (enrollment d)\<rparr>)
      = pair_count s c d"
    by (simp add: pair_count_def find_many_def insert_one_def)
  then show ?thesis using inv by simp
qed

lemma pair_count_frame:
  "enrollment d' = enrollment d \<Longrightarrow> pair_count s c d' = pair_count s c d"
  by (simp add: pair_count_def)

lemma enroll_course_keeps:
  assumes inv: "\<forall>s c. pair_count s c d \<le> 1"
  shows "pair_count s c (snd (enroll_course d e p u)) \<le> 1"
proof (cases "to_object_id (e_course_id p)")
  case (Inl err)
  then show ?thesis using inv by (simp add: enroll_course_def)
next
  case (Inr cid)
  note oid = this
  show ?thesis
  proof (cases "find_one_id cid (course d)")
    case None
    then show ?thesis using inv oid by (simp add: enroll_course_def)
  next
    case (Some crs)
    note crs = this
    show ?thesis
    proof (cases "getitem u ''_id''")
      case (Inl err)
      then show ?thesis using inv oid crs by (simp add: enroll_course_def)
    next
      case (Inr uid)
      note uid = this
      show ?thesis
      proof (cases "find_one [(''student_id'', uid), (''course_id'', VStr (e_course_id p))]
                      (enrollment d)")
        case None
        have "pair_count s c (d\<lparr>enrollment := insert_one (new_id e)
                 [(''student_id'', uid), (''course_id'', VStr (e_course_id p)),
                  (''status'', VStr ''enrolled''), (''enrolled_at'', VTime (now e))]
                 (enrollment d)\<rparr>) \<le> 1"
          by (rule pair_count_insert [OF None inv]) simp_all
        then show ?thesis using oid crs uid None by (simp add: enroll_course_def Let_def)
      next
        case (Some ex)
        then show ?thesis using inv oid crs uid by (simp add: enroll_course_def)
      qed
    qed
  qed
qed

lemma backend_enroll_keeps:
  assumes inv: "\<forall>s c. pair_count s c d \<le> 1"
  shows "pair_count s c (snd (backend_enroll d e p u)) \<le> 1"
proof (cases "object_id (new_id e) (VStr (e_course_id p))")
  case (Inl err)
  then show ?thesis using inv by (simp add: backend_enroll_def)
next
  case (Inr cid)
  note oid = this
  show ?thesis
  proof (cases "find_one_id cid (course d)")
    case None
    then show ?thesis using inv oid by (simp add: backend_enroll_def)
  next
    case (Some crs)
    note crs = this
    show ?thesis
    proof (cases "getitem u ''_id''")
      case (Inl err)
      then show ?thesis using inv oid crs by (simp add: backend_enroll_def)
    next
      case (Inr uid)
      note uid = this
      show ?thesis
      proof (cases "find_one [(''student_id'', uid), (''course_id'', VStr (e_course_id p))]
                      (enrollment d)")
        case None
        have "pair_count s c (d\<lparr>enrollment := insert_one (new_id e)
                 [(''student_id'', uid), (''course_id'', VStr (e_course_id p)),
                  (''created_at'', VTime (now e))]
                 (enrollment d)\<rparr>) \<le> 1"
          by (rule pair_count_insert [OF None inv]) simp_all
        then show ?thesis using oid crs uid None by (simp add: backend_enroll_def Let_def)
      next
        case (Some ex)
        then show ?thesis using inv oid crs uid by (simp add: backend_enroll_def)
      qed
    qed
  qed
qed

lemma register_enrollment: "enrollment (snd (register H d e p)) = enrollment d"
  by (simp add: register_def Let_def split: option.splits)

lemma login_enrollment: "enrollment (snd (login H d e p)) = enrollment d"
  by (simp add: login_def Let_def proceed_cases split: option.splits sum.splits)

lemma backend_register_enrollment: "enrollment (snd (backend_register d e p)) = enrollment d"
  by (simp add: backend_register_def Let_def split: option.splits)

lemma handle_keeps:
  assumes inv: "\<forall>s c. pair_count s c d \<le> 1"
  shows "pair_count s c (snd (handle H d e r)) \<le> 1"
proof (cases r)
  case (EnrollCourse a p)
  then show ?thesis
    using inv enroll_course_keeps [OF inv] by (simp add: proceed_cases split: sum.splits)
qed (use inv in \<open>simp_all add: pair_count_def register_enrollment login_enrollment
      create_course_frame mark_attendance_frame add_grade_frame create_announcement_frame
      dashboard_frame proceed_cases split: sum.splits\<close>)

lemma backend_handle_keeps:
  assumes inv: "\<forall>s c. pair_count s c d \<le> 1"
  shows "pair_count s c (snd (backend_handle d e r)) \<le> 1"
proof (cases r)
  case (BEnroll a p)
  then show ?thesis
    using inv backend_enroll_keeps [OF inv] by (simp add: proceed_cases split: sum.splits)
qed (use inv in \<open>simp_all add: pair_count_def backend_register_enrollment backend_login_frame
      backend_create_course_frame backend_mark_attendance_frame backend_add_grade_frame
      backend_add_announcement_frame backend_dashboard_frame seed_frame
      proceed_cases split: sum.splits\<close>)

lemma run_keeps:
  "\<forall>s c. pair_count s c d \<le> 1 \<Longrightarrow> pair_count s c (run H d rs) \<le> 1"
proof (induction rs arbitrary: d)
  case Nil
  then show ?case by simp
next
  case (Cons er rs)
  have "\<forall>s c. pair_count s c (snd (handle H d (fst er) (snd er))) \<le> 1"
    using handle_keeps [OF Cons.prems] by blast
  then show ?case using Cons.IH by simp
qed

lemma backend_run_keeps:
  "\<forall>s c. pair_count s c d \<le> 1 \<Longrightarrow> pair_count s c (backend_run d rs) \<le> 1"
proof (induction rs arbitrary: d)
  case Nil
  then show ?case by simp
next
  case (Cons er rs)
  have "\<forall>s c. pair_count s c (snd (backend_handle d (fst er) (snd er))) \<le> 1"
    using backend_handle_keeps [OF Cons.prems] by blast
  then show ?case using Cons.IH by simp
qed

lemma enroll_course_again:
  "getitem u ''_id'' = Inr uid \<Longrightarrow>
   find_one [(''student_id'', uid), (''course_id'', VStr (e_course_id p))] (enrollment d)
     = Some ex \<Longrightarrow>
   snd (enroll_course d e p u) = d \<and>
   (\<forall>i c. parse_oid (e_course_id p) = Some i \<and> find_one_id i (course d) = Some c \<longrightarrow>
      fst (enroll_course d e p u) = Inl (HTTPException 400 ''Already enrolled''))"
  by (simp add: enroll_course_def to_object_id_def proceed_cases split: option.splits)

lemma backend_enroll_again:
  "getitem u ''_id'' = Inr uid \<Longrightarrow>
   find_one [(''student_id'', uid), (''course_id'', VStr (e_course_id p))] (enrollment d)
     = Some ex \<Longrightarrow>
   snd (backend_enroll d e p u) = d \<and>
   (\<forall>i c. parse_oid (e_course_id p) = Some i \<and> find_one_id i (course d) = Some c \<longrightarrow>
      fst (backend_enroll d e p u) = Inr (pdict (str_id_dict ex)))"
  by (simp add: backend_enroll_def object_id_def proceed_cases split: option.splits)

text \<open>
  Enrolling while an enrollment with that student id and that text of the course id is
  stored leaves the database as it is: the root variant rejects with the 400
  ``Already enrolled'', the backend variant returns the stored enrollment. So a database
  with at most one enrollment for every pair of student id and course-id text keeps that
  property along any sequence of requests.
\<close>

theorem enroll_once_per_pair:
  "(get_current_user d (now e) a = Inr u \<and> getitem u ''_id'' = Inr uid \<and>
    find_one [(''student_id'', uid), (''course_id'', VStr (e_course_id p))] (enrollment d)
      = Some ex \<longrightarrow>
      snd (handle H d e (EnrollCourse a p)) = d \<and>
      (\<forall>i c. parse_oid (e_course_id p) = Some i \<and> find_one_id i (course d) = Some c \<longrightarrow>
         fst (handle H d e (EnrollCourse a p)) = Inl (HTTPException 400 ''Already enrolled'')))
   \<and> (backend_get_current_user d e a = Inr u \<and> getitem u ''_id'' = Inr uid \<and>
    find_one [(''student_id'', uid), (''course_id'', VStr (e_course_id p))] (enrollment d)
      = Some ex \<longrightarrow>
      snd (backend_handle d e (BEnroll a p)) = d \<and>
      (\<forall>i c. parse_oid (e_course_id p) = Some i \<and> find_one_id i (course d) = Some c \<longrightarrow>
         fst (backend_handle d e (BEnroll a p)) = Inr (pdict (str_id_dict ex))))
   \<and> ((\<forall>s c. pair_count s c d0 \<le> 1) \<longrightarrow>
        (\<forall>s c. pair_count s c (run H d0 rs) \<le> 1))
   \<and> ((\<forall>s c. pair_count s c d1 \<le> 1) \<longrightarrow>
        (\<forall>s c. pair_count s c (backend_run d1 brs) \<le> 1))"
  using enroll_course_again [of u uid p d ex e] backend_enroll_again [of u uid p d ex e]
    run_keeps [of d0 _ _ H rs] backend_run_keeps [of d1 _ _ brs]
  by simp



theorem enroll_once_per_pair_witness:
  "handle toy_hash db_enrolled env3 (EnrollCourse (Some ''Bearer tok1'') enroll_c1) =
     (Inl (HTTPException 400 ''Already enrolled''), db_enrolled)
   \<and> backend_handle backend_db_enrolled env4 (BEnroll (Some ''Bearer tok2'') enroll_seeded) =
     (Inr (PDict [(''_id'', PV (VStr ''000000000000000000000007'')),
                  (''student_id'', PV (VStr ''000000000000000000000004'')),
                  (''course_id'', PV (VStr ''000000000000000000000001'')),
                  (''created_at'', PV (VTime 300))]), backend_db_enrolled)
   \<and> (\<forall>s c. pair_count s c db_course \<le> 1)
   \<and> (\<forall>s c. pair_count s c (run toy_hash db_course
          [(env1, Register alice), (env2, EnrollCourse (Some ''Bearer tok1'') enroll_c1),
           (env3, EnrollCourse (Some ''Bearer tok1'') enroll_c1)]) \<le> 1)
   \<and> (\<forall>s c. pair_count s c empty_db \<le> 1)
   \<and> (\<forall>s c. pair_count s c (backend_run empty_db
          [(env1, BSeed), (env2, BRegister alice),
           (env3, BEnroll (Some ''Bearer tok2'') enroll_seeded),
           (env4, BEnroll (Some ''Bearer tok2'') enroll_seeded)]) \<le> 1)"
proof -
  let ?u = "[(''_id'', VStr ''000000000000000000000001''), (''name'', VStr ''A''),
             (''email'', VStr ''a@x.com''), (''role'', VStr ''student'')]"
  let ?ex = "(ObjectId ''000000000000000000000004'',
              [(''student_id'', VStr ''000000000000000000000001''),
               (''course_id'', VStr ''0000000000000000000000c1''),
               (''status'', VStr ''enrolled''), (''enrolled_at'', VTime 200)])"
  let ?bu = "[(''_id'', VStr ''000000000000000000000004''), (''name'', VStr ''A''),
              (''email'', VStr ''a@x.com''), (''password'', VStr ''p1''),
              (''role'', VStr ''student''), (''created_at'', VTime 200)]"
  let ?bex = "(ObjectId ''000000000000000000000007'',
              [(''student_id'', VStr ''000000000000000000000004''),
               (''course_id'', VStr ''000000000000000000000001''),
               (''created_at'', VTime 300)])"
  have g: "get_current_user db_enrolled (now env3) (Some ''Bearer tok1'') = Inr ?u"
    by code_simp
  have i: "getitem ?u ''_id'' = Inr (VStr ''000000000000000000000001'')"
    by code_simp
  have f: "find_one [(''student_id'', VStr ''000000000000000000000001''),
                     (''course_id'', VStr (e_course_id enroll_c1))] (enrollment db_enrolled)
             = Some ?ex"
    by code_simp
  have c: "parse_oid (e_course_id enroll_c1) = Some (ObjectId ''0000000000000000000000c1'')
           \<and> find_one_id (ObjectId ''0000000000000000000000c1'') (course db_enrolled)
             = Some (ObjectId ''0000000000000000000000c1'',
                 [(''code'', VStr ''CS101''), (''title'', VStr ''Intro to Programming'')])"
    by code_simp
  have bg: "backend_get_current_user backend_db_enrolled env4 (Some ''Bearer tok2'') = Inr ?bu"
    by code_simp
  have bi: "getitem ?bu ''_id'' = Inr (VStr ''000000000000000000000004'')"
    by code_simp
  have bf: "find_one [(''student_id'', VStr ''000000000000000000000004''),
                     (''course_id'', VStr (e_course_id enroll_seeded))]
              (enrollment backend_db_enrolled) = Some ?bex"
    by code_simp
  have bc: "parse_oid (e_course_id enroll_seeded) = Some (ObjectId ''000000000000000000000001'')
           \<and> find_one_id (ObjectId ''000000000000000000000001'') (course backend_db_enrolled)
             \<noteq> None"
    by code_simp
  have p0: "\<forall>s c. pair_count s c db_course \<le> 1"
    by (simp add: pair_count_def db_course_def empty_db_def find_many_def)
  have p1: "\<forall>s c. pair_count s c empty_db \<le> 1"
    by (simp add: pair_count_def empty_db_def find_many_def)
  note t1 = enroll_once_per_pair [of db_enrolled env3 "Some ''Bearer tok1''" ?u
      "VStr ''000000000000000000000001''" enroll_c1 ?ex toy_hash db_course
      "[(env1, Register alice), (env2, EnrollCourse (Some ''Bearer tok1'') enroll_c1),
        (env3, EnrollCourse (Some ''Bearer tok1'') enroll_c1)]" empty_db "[]"]
  note t2 = enroll_once_per_pair [of backend_db_enrolled env4 "Some ''Bearer tok2''" ?bu
      "VStr ''000000000000000000000004''" enroll_seeded ?bex toy_hash empty_db "[]"
      empty_db "[(env1, BSeed), (env2, BRegister alice),
        (env3, BEnroll (Some ''Bearer tok2'') enroll_seeded),
        (env4, BEnroll (Some ''Bearer tok2'') enroll_seeded)]"]
  have r1: "handle toy_hash db_enrolled env3 (EnrollCourse (Some ''Bearer tok1'') enroll_c1) =
     (Inl (HTTPException 400 ''Already enrolled''), db_enrolled)"
    using t1 g i f c by (simp add: prod_eq_iff)
  have r2: "backend_handle backend_db_enrolled env4 (BEnroll (Some ''Bearer tok2'') enroll_seeded)
     = (Inr (pdict (str_id_dict ?bex)), backend_db_enrolled)"
    using t2 bg bi bf bc by (auto simp: prod_eq_iff)
  show ?thesis
    using r1 r2 p0 p1 t1 t2 by (simp add: pdict_def str_id_dict_def)
qed

text \<open>
  Claim C9. On an empty course collection the seed inserts the three demo courses and
  answers ``Seeded'' with count 3; on a non-empty one it inserts nothing and answers
  ``Already seeded''. Seeding a second time changes nothing.
\<close>

theorem seed_once:
  "(course d = [] \<longrightarrow>
      seed d e = (Inr (PDict [(''message'', PV (VStr ''Seeded'')), (''count'', PV (VInt 3))]),
                  d\<lparr>course := zip [new_id e, new_id2 e, new_id3 e] (demo_courses (now e))\<rparr>)
      \<and> length (course (snd (seed d e))) = 3)
   \<and> (course d \<noteq> [] \<longrightarrow>
      seed d e = (Inr (PDict [(''message'', PV (VStr ''Already seeded''))]), d))
   \<and> snd (seed (snd (seed d e)) e') = snd (seed d e)"
  by (simp add: seed_def pdict_def demo_courses_def)

theorem seed_once_witness:
  "course empty_db = []
   \<and> fst (seed empty_db env1) =
       Inr (PDict [(''message'', PV (VStr ''Seeded'')), (''count'', PV (VInt 3))])
   \<and> map fst (course (snd (seed empty_db env1))) = [oid1, oid2, oid3]
   \<and> course (snd (seed empty_db env1)) \<noteq> []
   \<and> seed (snd (seed empty_db env1)) env2 =
       (Inr (PDict [(''message'', PV (VStr ''Already seeded''))]), snd (seed empty_db env1))"
  using seed_once [of empty_db env1 env2] seed_once [of "snd (seed empty_db env1)" env2 env2]
  by (simp add: empty_db_def env1_def demo_courses_def)

lemma user_view_role: "user_view user = Inr u \<Longrightarrow> \<exists>r. getitem u ''role'' = Inr r"
  by (cases "getitem (snd user) ''name''"; cases "getitem (snd user) ''email''")
     (auto simp: user_view_def getitem_def)

lemma find_one_id_mem: "find_one_id i coll = Some x \<Longrightarrow> x \<in> set coll"
  by (simp add: find_one_id_def find_Some_mem)

lemma get_current_user_view:
  assumes ok: "get_current_user d t a = Inr u"
  shows "\<exists>user \<in> set (student d). user_view user = Inr u"
proof (cases a)
  case None
  then show ?thesis using ok by (simp add: get_current_user_def)
next
  case (Some hdr)
  note hdr = this
  show ?thesis
  proof (cases "hdr = []")
    case True
    then show ?thesis using ok hdr by (simp add: get_current_user_def)
  next
    case False
    note ne = this
    show ?thesis
    proof (cases "find_one [(''token'', VStr (strip (remove_bearer hdr)))] (session d)")
      case None
      then show ?thesis using ok hdr ne by (simp add: get_current_user_def)
    next
      case (Some sess)
      note sess = this
      show ?thesis
      proof (cases "session_expired (snd sess) t")
        case (Inl err)
        then show ?thesis using ok hdr ne sess by (simp add: get_current_user_def)
      next
        case (Inr expired)
        note ex = this
        show ?thesis
        proof (cases expired)
          case True
          then show ?thesis using ok hdr ne sess ex by (simp add: get_current_user_def)
        next
          case False
          note live = this
          show ?thesis
          proof (cases "getitem (snd sess) ''user_id''")
            case (Inl err)
            then show ?thesis using ok hdr ne sess ex live by (simp add: get_current_user_def)
          next
            case (Inr uid)
            note uid = this
            show ?thesis
            proof (cases "find_one_id_val uid (student d)")
              case None
              then show ?thesis
                using ok hdr ne sess ex live uid by (simp add: get_current_user_def)
            next
              case (Some user)
              then have "user \<in> set (student d)"
                by (cases uid) (simp_all add: find_one_id_val_def find_one_id_mem)
              moreover have "user_view user = Inr u"
                using ok hdr ne sess ex live uid Some by (simp add: get_current_user_def)
              ultimately show ?thesis by blast
            qed
          qed
        qed
      qed
    qed
  qed
qed

text \<open>
  Claim C4, amended. In the root variant course creation by an authenticated identity
  whose role is not \<open>admin\<close> fails with the 403 and changes nothing. The backend variant
  has no role check: for every authenticated identity it inserts the course.
\<close>

theorem create_course_authorization:
  "(get_current_user d (now e) a = Inr u \<and> getitem u ''role'' \<noteq> Inr (VStr ''admin'') \<longrightarrow>
      handle H d e (CreateCourse a p) =
        (Inl (HTTPException 403 ''Only admin can create courses''), d))
   \<and> (backend_get_current_user d' e' a' = Inr bu \<longrightarrow>
      backend_handle d' e' (BCreateCourse a' c) =
        (Inr (pdict (course_dict (now e') c @ [(''_id'', VStr (str_oid (new_id e')))])),
         d'\<lparr>course := course d' @ [(new_id e', course_dict (now e') c)]\<rparr>))"
proof (intro conjI impI)
  assume h: "get_current_user d (now e) a = Inr u \<and> getitem u ''role'' \<noteq> Inr (VStr ''admin'')"
  then obtain r where r: "getitem u ''role'' = Inr r"
    using get_current_user_view user_view_role by blast
  with h have "r \<noteq> VStr ''admin''" by simp
  with h r show "handle H d e (CreateCourse a p) =
      (Inl (HTTPException 403 ''Only admin can create courses''), d)"
    by (simp add: create_course_def)
next
  assume "backend_get_current_user d' e' a' = Inr bu"
  then show "backend_handle d' e' (BCreateCourse a' c) =
        (Inr (pdict (course_dict (now e') c @ [(''_id'', VStr (str_oid (new_id e')))])),
         d'\<lparr>course := course d' @ [(new_id e', course_dict (now e') c)]\<rparr>)"
    by (simp add: backend_create_course_def insert_one_def Let_def)
qed


theorem create_course_authorization_counterexample:
  "getitem [(''_id'', VStr ''000000000000000000000001''), (''name'', VStr ''A''),
            (''email'', VStr ''a@x.com''), (''password'', VStr ''p1''),
            (''role'', VStr ''student''), (''created_at'', VTime 100)] ''role''
     = Inr (VStr ''student'')
   \<and> backend_get_current_user backend_db_alice env2 (Some ''Bearer tok1'') =
       Inr [(''_id'', VStr ''000000000000000000000001''), (''name'', VStr ''A''),
            (''email'', VStr ''a@x.com''), (''password'', VStr ''p1''),
            (''role'', VStr ''student''), (''created_at'', VTime 100)]
   \<and> course backend_db_alice = []
   \<and> course (snd (backend_handle backend_db_alice env2
                    (BCreateCourse (Some ''Bearer tok1'') cs101))) =
       [(oid4, [(''title'', VStr ''Intro to Programming''), (''code'', VStr ''CS101''),
                (''description'', VNone), (''instructor'', VNone),
                (''created_at'', VTime 200)])]"
  by code_simp

theorem create_course_authorization_witness:
  "get_current_user db_alice (now env2) (Some ''Bearer tok1'') =
     Inr [(''_id'', VStr ''000000000000000000000001''), (''name'', VStr ''A''),
          (''email'', VStr ''a@x.com''), (''role'', VStr ''student'')]
   \<and> handle toy_hash db_alice env2 (CreateCourse (Some ''Bearer tok1'') cs101_create) =
       (Inl (HTTPException 403 ''Only admin can create courses''), db_alice)
   \<and> backend_get_current_user backend_db_alice env2 (Some ''Bearer tok1'') =
       Inr [(''_id'', VStr ''000000000000000000000001''), (''name'', VStr ''A''),
            (''email'', VStr ''a@x.com''), (''password'', VStr ''p1''),
            (''role'', VStr ''student''), (''created_at'', VTime 100)]
   \<and> course (snd (backend_handle backend_db_alice env2
                    (BCreateCourse (Some ''Bearer tok1'') cs101))) =
       course backend_db_alice @ [(new_id env2, course_dict (now env2) cs101)]"
proof -
  let ?u = "[(''_id'', VStr ''000000000000000000000001''), (''name'', VStr ''A''),
          (''email'', VStr ''a@x.com''), (''role'', VStr ''student'')]"
  let ?bu = "[(''_id'', VStr ''000000000000000000000001''), (''name'', VStr ''A''),
            (''email'', VStr ''a@x.com''), (''password'', VStr ''p1''),
            (''role'', VStr ''student''), (''created_at'', VTime 100)]"
  have g: "get_current_user db_alice (now env2) (Some ''Bearer tok1'') = Inr ?u"
    by code_simp
  have r: "getitem ?u ''role'' \<noteq> Inr (VStr ''admin'')"
    by (simp add: getitem_def)
  have bg: "backend_get_current_user backend_db_alice env2 (Some ''Bearer tok1'') = Inr ?bu"
    by code_simp
  show ?thesis
    using g r bg
      create_course_authorization [of db_alice env2 "Some ''Bearer tok1''" ?u toy_hash
        cs101_create backend_db_alice env2 "Some ''Bearer tok1''" ?bu cs101]
    by simp
qed

lemma backend_get_current_user_doc:
  assumes ok: "backend_get_current_user d e a = Inr u"
  shows "\<exists>user \<in> set (student d). u = str_id_dict user"
proof (cases a)
  case None
  then show ?thesis using ok by (simp add: backend_get_current_user_def)
next
  case (Some hdr)
  note hdr = this
  show ?thesis
  proof (cases "hdr = [] \<or> \<not> startswith hdr ''Bearer ''")
    case True
    then show ?thesis using ok hdr by (simp add: backend_get_current_user_def)
  next
    case False
    note bearer = this
    show ?thesis
    proof (cases "split1_second hdr")
      case (Inl err)
      then show ?thesis using ok hdr bearer by (simp add: backend_get_current_user_def)
    next
      case (Inr tok)
      note tok = this
      show ?thesis
      proof (cases "find (live_session tok (now e)) (session d)")
        case None
        then show ?thesis using ok hdr bearer tok by (simp add: backend_get_current_user_def)
      next
        case (Some sess)
        note sess = this
        show ?thesis
        proof (cases "getitem (snd sess) ''student_id''")
          case (Inl err)
          then show ?thesis
            using ok hdr bearer tok sess by (simp add: backend_get_current_user_def)
        next
          case (Inr sid)
          note sid = this
          show ?thesis
          proof (cases "object_id (new_id3 e) sid")
            case (Inl err)
            then show ?thesis
              using ok hdr bearer tok sess sid by (simp add: backend_get_current_user_def)
          next
            case (Inr i)
            note i = this
            show ?thesis
            proof (cases "find_one_id i (student d)")
              case None
              then show ?thesis
                using ok hdr bearer tok sess sid i by (simp add: backend_get_current_user_def)
            next
              case (Some user)
              then have "user \<in> set (student d)" by (rule find_one_id_mem)
              moreover have "u = str_id_dict user"
                using ok hdr bearer tok sess sid i Some
                by (simp add: backend_get_current_user_def)
              ultimately show ?thesis by blast
            qed
          qed
        qed
      qed
    qed
  qed
qed

lemma user_view_shape:
  "user_view user = Inr u \<Longrightarrow>
     \<exists>n m. map_of (snd user) ''name'' = Some n \<and> map_of (snd user) ''email'' = Some m \<and>
       u = [(''_id'', VStr (str_oid (fst user))), (''name'', n), (''email'', m),
            (''role'', get_default (snd user) ''role'' (VStr ''student''))]"
  by (cases "map_of (snd user) ''name''"; cases "map_of (snd user) ''email''")
     (auto simp: user_view_def getitem_def)

lemma get_current_user_accepts:
  assumes "hdr \<noteq> []"
    and "find_one [(''token'', VStr (strip (remove_bearer hdr)))] (session d) = Some sess"
    and "map_of (snd sess) ''expires_at'' = Some (VTime x)" and "t < x"
    and "map_of (snd sess) ''user_id'' = Some (VOid i)"
    and "find_one_id i (student d) = Some user"
    and "map_of (snd user) ''name'' = Some n" and "map_of (snd user) ''email'' = Some m"
  shows "get_current_user d t (Some hdr) =
     Inr [(''_id'', VStr (str_oid (fst user))), (''name'', n), (''email'', m),
          (''role'', get_default (snd user) ''role'' (VStr ''student''))]"
  using assms
  by (simp add: get_current_user_def session_expired_def getitem_def find_one_id_val_def
      user_view_def)

lemma backend_get_current_user_accepts:
  assumes "hdr \<noteq> []" and "startswith hdr ''Bearer ''"
    and "split1_second hdr = Inr tok"
    and "find (live_session tok (now e)) (session d) = Some sess"
    and "map_of (snd sess) ''student_id'' = Some (VStr s)"
    and "parse_oid s = Some i"
    and "find_one_id i (student d) = Some user"
  shows "backend_get_current_user d e (Some hdr) = Inr (str_id_dict user)"
  using assms
  by (simp add: backend_get_current_user_def getitem_def object_id_def)

text \<open>
  Claim C3, amended. In the root variant the gate, on a token whose session is unexpired
  and whose identity is stored, returns exactly the fields \<open>_id\<close>, \<open>name\<close>, \<open>email\<close> and
  \<open>role\<close> of that identity, and whatever it returns has exactly these four fields. In the
  backend variant the gate returns the whole stored student document with its \<open>_id\<close> as a
  string, so every stored field, the \<open>password\<close> included, is in the returned value.
\<close>

theorem gate_identity_view:
  "(get_current_user d t a = Inr u \<longrightarrow>
      map fst u = [''_id'', ''name'', ''email'', ''role''] \<and>
      (\<exists>user \<in> set (student d). \<exists>n m.
         map_of (snd user) ''name'' = Some n \<and> map_of (snd user) ''email'' = Some m \<and>
         u = [(''_id'', VStr (str_oid (fst user))), (''name'', n), (''email'', m),
              (''role'', get_default (snd user) ''role'' (VStr ''student''))]))
   \<and> (hdr \<noteq> [] \<and>
       find_one [(''token'', VStr (strip (remove_bearer hdr)))] (session d) = Some sess \<and>
       map_of (snd sess) ''expires_at'' = Some (VTime x) \<and> t < x \<and>
       map_of (snd sess) ''user_id'' = Some (VOid i) \<and>
       find_one_id i (student d) = Some user \<and>
       map_of (snd user) ''name'' = Some n \<and> map_of (snd user) ''email'' = Some m \<longrightarrow>
       get_current_user d t (Some hdr) =
         Inr [(''_id'', VStr (str_oid (fst user))), (''name'', n), (''email'', m),
              (''role'', get_default (snd user) ''role'' (VStr ''student''))])
   \<and> (backend_get_current_user d' e' a' = Inr bu \<longrightarrow>
        (\<exists>user \<in> set (student d'). bu = (''_id'', VStr (str_oid (fst user))) # snd user))
   \<and> (bhdr \<noteq> [] \<and> startswith bhdr ''Bearer '' \<and> split1_second bhdr = Inr tok \<and>
       find (live_session tok (now e')) (session d') = Some bsess \<and>
       map_of (snd bsess) ''student_id'' = Some (VStr s) \<and> parse_oid s = Some j \<and>
       find_one_id j (student d') = Some buser \<longrightarrow>
       backend_get_current_user d' e' (Some bhdr) =
         Inr ((''_id'', VStr (str_oid (fst buser))) # snd buser))"
proof (intro conjI impI)
  assume ok: "get_current_user d t a = Inr u"
  then obtain user where user: "user \<in> set (student d)" "user_view user = Inr u"
    using get_current_user_view by blast
  from user_view_shape [OF user(2)] obtain n m where
    nm: "map_of (snd user) ''name'' = Some n" "map_of (snd user) ''email'' = Some m"
        "u = [(''_id'', VStr (str_oid (fst user))), (''name'', n), (''email'', m),
              (''role'', get_default (snd user) ''role'' (VStr ''student''))]"
    by blast
  from nm(3) show "map fst u = [''_id'', ''name'', ''email'', ''role'']" by simp
  from user(1) nm show "\<exists>user \<in> set (student d). \<exists>n m.
         map_of (snd user) ''name'' = Some n \<and> map_of (snd user) ''email'' = Some m \<and>
         u = [(''_id'', VStr (str_oid (fst user))), (''name'', n), (''email'', m),
              (''role'', get_default (snd user) ''role'' (VStr ''student''))]"
    by blast
next
  assume "hdr \<noteq> [] \<and>
       find_one [(''token'', VStr (strip (remove_bearer hdr)))] (session d) = Some sess \<and>
       map_of (snd sess) ''expires_at'' = Some (VTime x) \<and> t < x \<and>
       map_of (snd sess) ''user_id'' = Some (VOid i) \<and>
       find_one_id i (student d) = Some user \<and>
       map_of (snd user) ''name'' = Some n \<and> map_of (snd user) ''email'' = Some m"
  then show "get_current_user d t (Some hdr) =
         Inr [(''_id'', VStr (str_oid (fst user))), (''name'', n), (''email'', m),
              (''role'', get_default (snd user) ''role'' (VStr ''student''))]"
    using get_current_user_accepts by blast
next
  assume "backend_get_current_user d' e' a' = Inr bu"
  then show "\<exists>user \<in> set (student d'). bu = (''_id'', VStr (str_oid (fst user))) # snd user"
    using backend_get_current_user_doc [of d' e' a' bu] by (simp add: str_id_dict_def)
next
  assume "bhdr \<noteq> [] \<and> startswith bhdr ''Bearer '' \<and> split1_second bhdr = Inr tok \<and>
       find (live_session tok (now e')) (session d') = Some bsess \<and>
       map_of (snd bsess) ''student_id'' = Some (VStr s) \<and> parse_oid s = Some j \<and>
       find_one_id j (student d') = Some buser"
  then show "backend_get_current_user d' e' (Some bhdr) =
         Inr ((''_id'', VStr (str_oid (fst buser))) # snd buser)"
    using backend_get_current_user_accepts [of bhdr tok e' d' bsess s j buser]
    by (simp add: str_id_dict_def)
qed

theorem gate_identity_view_counterexample:
  "student backend_db_alice =
     [(oid1, [(''name'', VStr ''A''), (''email'', VStr ''a@x.com''),
              (''password'', VStr ''p1''), (''role'', VStr ''student''),
              (''created_at'', VTime 100)])]
   \<and> backend_get_current_user backend_db_alice env2 (Some ''Bearer tok1'') =
       Inr [(''_id'', VStr ''000000000000000000000001''), (''name'', VStr ''A''),
            (''email'', VStr ''a@x.com''), (''password'', VStr ''p1''),
            (''role'', VStr ''student''), (''created_at'', VTime 100)]"
  by code_simp

theorem gate_identity_view_witness:
  "get_current_user db_alice 200 (Some ''Bearer tok1'') =
     Inr [(''_id'', VStr ''000000000000000000000001''), (''name'', VStr ''A''),
          (''email'', VStr ''a@x.com''), (''role'', VStr ''student'')]
   \<and> map fst [(''_id'', VStr ''000000000000000000000001''), (''name'', VStr ''A''),
          (''email'', VStr ''a@x.com''), (''role'', VStr ''student'')]
       = [''_id'', ''name'', ''email'', ''role'']
   \<and> (200::int) < 604800000100
   \<and> backend_get_current_user backend_db_alice env2 (Some ''Bearer tok1'') =
       Inr [(''_id'', VStr ''000000000000000000000001''), (''name'', VStr ''A''),
            (''email'', VStr ''a@x.com''), (''password'', VStr ''p1''),
            (''role'', VStr ''student''), (''created_at'', VTime 100)]
   \<and> (\<exists>user \<in> set (student backend_db_alice).
         [(''_id'', VStr ''000000000000000000000001''), (''name'', VStr ''A''),
          (''email'', VStr ''a@x.com''), (''password'', VStr ''p1''),
          (''role'', VStr ''student''), (''created_at'', VTime 100)]
         = (''_id'', VStr (str_oid (fst user))) # snd user)"
proof -
  let ?sess = "(oid2, [(''user_id'', VOid oid1), (''token'', VStr ''tok1''),
                 (''expires_at'', VTime 604800000100), (''created_at'', VTime 100)])"
  let ?user = "(oid1, [(''name'', VStr ''A''), (''email'', VStr ''a@x.com''),
                 (''password_hash'', VStr ''sha256:p1''), (''role'', VStr ''student''),
                 (''is_active'', VBool True), (''created_at'', VTime 100),
                 (''updated_at'', VTime 100)])"
  let ?bsess = "(oid2, [(''student_id'', VStr ''000000000000000000000001''),
                 (''token'', VStr ''tok1''), (''expires_at'', VTime 604800000100),
                 (''created_at'', VTime 100)])"
  let ?buser = "(oid1, [(''name'', VStr ''A''), (''email'', VStr ''a@x.com''),
                 (''password'', VStr ''p1''), (''role'', VStr ''student''),
                 (''created_at'', VTime 100)])"
  let ?bu = "[(''_id'', VStr ''000000000000000000000001''), (''name'', VStr ''A''),
            (''email'', VStr ''a@x.com''), (''password'', VStr ''p1''),
            (''role'', VStr ''student''), (''created_at'', VTime 100)]"
  have h1: "find_one [(''token'', VStr (strip (remove_bearer ''Bearer tok1'')))]
              (session db_alice) = Some ?sess"
    by code_simp
  have h2: "find_one_id oid1 (student db_alice) = Some ?user"
    by code_simp
  have h3: "split1_second ''Bearer tok1'' = Inr ''tok1''"
    by code_simp
  have h4: "find (live_session ''tok1'' (now env2)) (session backend_db_alice) = Some ?bsess"
    by code_simp
  have h5: "parse_oid ''000000000000000000000001'' = Some oid1"
    by code_simp
  have h6: "find_one_id oid1 (student backend_db_alice) = Some ?buser"
    by code_simp
  have h7: "startswith ''Bearer tok1'' ''Bearer ''"
    by code_simp
  have h8: "backend_get_current_user backend_db_alice env2 (Some ''Bearer tok1'') = Inr ?bu"
    by code_simp
  note t = gate_identity_view [where d = db_alice and t = 200 and a = "Some ''Bearer tok1''"
      and hdr = "''Bearer tok1''" and sess = ?sess and x = 604800000100 and i = oid1
      and user = ?user and n = "VStr ''A''" and m = "VStr ''a@x.com''"
      and d' = backend_db_alice and e' = env2 and a' = "Some ''Bearer tok1''" and bu = ?bu
      and bhdr = "''Bearer tok1''" and tok = "''tok1''" and bsess = ?bsess
      and s = "''000000000000000000000001''" and j = oid1 and buser = ?buser]
  have g: "get_current_user db_alice 200 (Some ''Bearer tok1'') =
     Inr [(''_id'', VStr ''000000000000000000000001''), (''name'', VStr ''A''),
          (''email'', VStr ''a@x.com''), (''role'', VStr ''student'')]"
    using t h1 h2 by (simp add: get_default_def oid1_def)
  show ?thesis
    using g h8 t [THEN conjunct2, THEN conjunct2, THEN conjunct1] by simp
qed

text \<open>
  Claim C1, amended. In the root variant a registration with a fresh email stores one
  identity whose \<open>password_hash\<close> is the hash of the supplied credential, and the outcome
  of the registration depends on the credential through its hash only. The backend variant
  has no hashing: the identity it stores holds the supplied credential itself in the field
  \<open>password\<close>.
\<close>

theorem register_stores_hash:
  "(find_one [(''email'', VStr (r_email p))] (student d) = None \<longrightarrow>
      student (snd (register H d e p)) =
        student d @ [(new_id e,
          [(''name'', VStr (r_name p)), (''email'', VStr (r_email p)),
           (''password_hash'', VStr (H (r_password p))), (''role'', VStr ''student''),
           (''is_active'', VBool True), (''created_at'', VTime (now e)),
           (''updated_at'', VTime (now e))])])
   \<and> (r_name q = r_name p \<and> r_email q = r_email p \<and> H (r_password q) = H (r_password p)
        \<longrightarrow> register H d e q = register H d e p)
   \<and> (find_one [(''email'', VStr (r_email p'))] (student d') = None \<longrightarrow>
      student (snd (backend_register d' e' p')) =
        student d' @ [(new_id e',
          [(''name'', VStr (r_name p')), (''email'', VStr (r_email p')),
           (''password'', VStr (r_password p')), (''role'', VStr ''student''),
           (''created_at'', VTime (now e'))])])"
proof (intro conjI impI)
  assume "find_one [(''email'', VStr (r_email p))] (student d) = None"
  then show "student (snd (register H d e p)) =
        student d @ [(new_id e,
          [(''name'', VStr (r_name p)), (''email'', VStr (r_email p)),
           (''password_hash'', VStr (H (r_password p))), (''role'', VStr ''student''),
           (''is_active'', VBool True), (''created_at'', VTime (now e)),
           (''updated_at'', VTime (now e))])]"
    by (simp add: register_def insert_one_def Let_def)
next
  assume "r_name q = r_name p \<and> r_email q = r_email p \<and> H (r_password q) = H (r_password p)"
  then show "register H d e q = register H d e p"
    by (simp add: register_def Let_def split: option.splits)
next
  assume "find_one [(''email'', VStr (r_email p'))] (student d') = None"
  then show "student (snd (backend_register d' e' p')) =
        student d' @ [(new_id e',
          [(''name'', VStr (r_name p')), (''email'', VStr (r_email p')),
           (''password'', VStr (r_password p')), (''role'', VStr ''student''),
           (''created_at'', VTime (now e'))])]"
    by (simp add: backend_register_def insert_one_def Let_def)
qed

theorem register_stores_hash_counterexample:
  "r_password alice = ''p1''
   \<and> find_one [(''email'', VStr (r_email alice))] (student empty_db) = None
   \<and> student (snd (backend_register empty_db env1 alice)) =
       [(oid1, [(''name'', VStr ''A''), (''email'', VStr ''a@x.com''),
                (''password'', VStr ''p1''), (''role'', VStr ''student''),
                (''created_at'', VTime 100)])]"
  by code_simp

theorem register_stores_hash_witness:
  "find_one [(''email'', VStr (r_email alice))] (student empty_db) = None
   \<and> student (snd (register weak_hash empty_db env1 alice)) =
       [(oid1, [(''name'', VStr ''A''), (''email'', VStr ''a@x.com''),
                (''password_hash'', VStr ''p''), (''role'', VStr ''student''),
                (''is_active'', VBool True), (''created_at'', VTime 100),
                (''updated_at'', VTime 100)])]
   \<and> r_password (alice\<lparr>r_password := ''p2''\<rparr>) \<noteq> r_password alice
   \<and> weak_hash (r_password (alice\<lparr>r_password := ''p2''\<rparr>)) = weak_hash (r_password alice)
   \<and> register weak_hash empty_db env1 (alice\<lparr>r_password := ''p2''\<rparr>) =
       register weak_hash empty_db env1 alice
   \<and> student (snd (backend_register empty_db env1 alice)) =
       [(oid1, [(''name'', VStr ''A''), (''email'', VStr ''a@x.com''),
                (''password'', VStr ''p1''), (''role'', VStr ''student''),
                (''created_at'', VTime 100)])]"
proof -
  have f: "find_one [(''email'', VStr (r_email alice))] (student empty_db) = None"
    by (simp add: empty_db_def find_one_def)
  have w: "weak_hash (r_password (alice\<lparr>r_password := ''p2''\<rparr>)) = weak_hash (r_password alice)"
    by (simp add: weak_hash_def alice_def)
  show ?thesis
    using f w register_stores_hash [of alice empty_db weak_hash env1
        "alice\<lparr>r_password := ''p2''\<rparr>" alice empty_db env1]
    by (simp add: alice_def env1_def empty_db_def weak_hash_def)
qed


















lemma num_of_no_zde: "num_of v \<noteq> Inl ZeroDivisionError"
  by (cases v) simp_all

lemma py_sum_no_zde: "py_sum acc vs \<noteq> Inl ZeroDivisionError"
proof (induction vs arbitrary: acc)
  case Nil
  show ?case by simp
next
  case (Cons v vs)
  show ?case
  proof (cases "num_of v")
    case (Inl err)
    then show ?thesis using num_of_no_zde [of v] by simp
  next
    case (Inr x)
    then show ?thesis using Cons.IH by simp
  qed
qed

lemma avg_grade_no_zde: "avg_grade docs \<noteq> Inl ZeroDivisionError"
proof (cases "py_sum 0 (grade_values docs)")
  case (Inl err)
  then show ?thesis using py_sum_no_zde [of 0 "grade_values docs"] by (simp add: avg_grade_def)
next
  case (Inr s)
  then show ?thesis by (simp add: avg_grade_def py_div_def)
qed

lemma backend_avg_no_zde: "backend_avg docs \<noteq> Inl ZeroDivisionError"
proof (cases "docs = []")
  case True
  then show ?thesis by (simp add: backend_avg_def)
next
  case False
  note ne = this
  show ?thesis
  proof (cases "py_sum 0 (grade_values docs)")
    case (Inl err)
    then show ?thesis
      using ne py_sum_no_zde [of 0 "grade_values docs"] by (simp add: backend_avg_def)
  next
    case (Inr s)
    then show ?thesis using ne by (simp add: backend_avg_def py_div_def)
  qed
qed

lemma map_err_Inl:
  "map_err f xs = Inl err \<Longrightarrow> \<exists>x \<in> set xs. f x = Inl err"
proof (induction xs)
  case Nil
  then show ?case by simp
next
  case (Cons x xs)
  show ?case
  proof (cases "f x")
    case (Inl err')
    then show ?thesis using Cons.prems by simp
  next
    case (Inr y)
    note y = this
    show ?thesis
    proof (cases "map_err f xs")
      case (Inl err')
      then show ?thesis using Cons y by simp
    next
      case (Inr ys)
      then show ?thesis using Cons.prems y by simp
    qed
  qed
qed

lemma map_err_Inr:
  "map_err f xs = Inr ys \<Longrightarrow> list_all2 (\<lambda>x y. f x = Inr y) xs ys"
proof (induction xs arbitrary: ys)
  case Nil
  then show ?case by simp
next
  case (Cons x xs)
  show ?case
  proof (cases "f x")
    case (Inl err)
    then show ?thesis using Cons.prems by simp
  next
    case (Inr y)
    note y = this
    show ?thesis
    proof (cases "map_err f xs")
      case (Inl err)
      then show ?thesis using Cons.prems y by simp
    next
      case (Inr zs)
      then show ?thesis using Cons y by auto
    qed
  qed
qed

lemma course_progress_no_zde: "course_progress d uid c \<noteq> Inl ZeroDivisionError"
proof -
  let ?g = "find_many [(''student_id'', uid), (''course_id'', VStr (str_oid (fst c)))] (grade d)"
  show ?thesis
  proof (cases "avg_grade ?g")
    case (Inl err)
    then show ?thesis using avg_grade_no_zde [of ?g] by (simp add: course_progress_def Let_def)
  next
    case (Inr avg)
    then show ?thesis by (simp add: course_progress_def Let_def)
  qed
qed

lemma getitem_no_zde: "getitem m k \<noteq> Inl ZeroDivisionError"
  by (simp add: getitem_def split: option.splits)

lemma object_id_no_zde: "object_id fresh v \<noteq> Inl ZeroDivisionError"
  by (cases v) (simp_all add: object_id_def split: option.splits)

lemma to_object_id_val_no_zde: "to_object_id_val fresh v \<noteq> Inl ZeroDivisionError"
  by (simp add: to_object_id_val_def split: sum.splits)

lemma backend_progress_no_zde: "backend_progress d e uid en \<noteq> Inl ZeroDivisionError"
proof (cases "getitem (snd en) ''course_id''")
  case (Inl err)
  then show ?thesis
    using getitem_no_zde [of "snd en" "''course_id''"] by (simp add: backend_progress_def)
next
  case (Inr cid)
  note cid = this
  show ?thesis
  proof (cases "object_id (new_id e) cid")
    case (Inl err)
    then show ?thesis
      using cid object_id_no_zde [of "new_id e" cid] by (simp add: backend_progress_def)
  next
    case (Inr i)
    note i = this
    show ?thesis
    proof (cases "find_one_id i (course d)")
      case None
      then show ?thesis using cid i by (simp add: backend_progress_def)
    next
      case (Some c)
      let ?g = "find_many [(''student_id'', uid), (''course_id'', cid)] (grade d)"
      show ?thesis
      proof (cases "backend_avg ?g")
        case (Inl err)
        then show ?thesis
          using cid i Some backend_avg_no_zde [of ?g]
          by (simp add: backend_progress_def Let_def)
      next
        case (Inr avg)
        then show ?thesis using cid i Some by (simp add: backend_progress_def Let_def)
      qed
    qed
  qed
qed

lemma course_id_step_no_zde:
  "bind_err (getitem (snd en) ''course_id'') (to_object_id_val fresh)
     \<noteq> Inl ZeroDivisionError"
  using getitem_no_zde [of "snd en" "''course_id''"] to_object_id_val_no_zde [of fresh]
  by (cases "getitem (snd en) ''course_id''") simp_all

lemma dashboard_no_zde: "fst (dashboard d e user) \<noteq> Inl ZeroDivisionError"
proof (cases "getitem user ''_id''")
  case (Inl err)
  then show ?thesis using getitem_no_zde [of user "''_id''"] by (simp add: dashboard_def)
next
  case (Inr uid)
  note uid = this
  let ?ids = "map_err (\<lambda>en. bind_err (getitem (snd en) ''course_id'')
                 (to_object_id_val (new_id e)))
               (find_many [(''student_id'', uid)] (enrollment d))"
  show ?thesis
  proof (cases ?ids)
    case (Inl err)
    then have "err \<noteq> ZeroDivisionError"
      using map_err_Inl [OF Inl] course_id_step_no_zde by blast
    then show ?thesis using uid Inl by (simp add: dashboard_def Let_def)
  next
    case (Inr course_ids)
    note ids = this
    let ?courses = "if course_ids \<noteq> []
                    then filter (\<lambda>c. fst c \<in> set course_ids) (course d) else []"
    show ?thesis
    proof (cases "map_err (course_progress d uid) ?courses")
      case (Inl err)
      then have "err \<noteq> ZeroDivisionError"
        using map_err_Inl [OF Inl] course_progress_no_zde by blast
      then show ?thesis using uid ids Inl by (simp add: dashboard_def Let_def)
    next
      case (Inr ps)
      then show ?thesis using uid ids by (simp add: dashboard_def Let_def)
    qed
  qed
qed

lemma backend_dashboard_no_zde: "fst (backend_dashboard d e user) \<noteq> Inl ZeroDivisionError"
proof (cases "getitem user ''_id''")
  case (Inl err)
  then show ?thesis
    using getitem_no_zde [of user "''_id''"] by (simp add: backend_dashboard_def)
next
  case (Inr uid)
  note uid = this
  show ?thesis
  proof (cases "map_err (backend_progress d e uid)
                  (find_many [(''student_id'', uid)] (enrollment d))")
    case (Inl err)
    then have "err \<noteq> ZeroDivisionError"
      using map_err_Inl [OF Inl] backend_progress_no_zde by blast
    then show ?thesis using uid Inl by (simp add: backend_dashboard_def)
  next
    case (Inr rounds)
    then show ?thesis using uid by (simp add: backend_dashboard_def)
  qed
qed

lemma course_progress_no_grades:
  assumes "find_many [(''student_id'', uid), (''course_id'', VStr (str_oid (fst c)))] (grade d)
             = []"
  shows "course_progress d uid c =
     Inr (PDict [(''course'', pdict (str_id_dict c)),
                 (''attendance_records'',
                    PV (VInt (int (length (find_many [(''student_id'', uid),
                       (''course_id'', VStr (str_oid (fst c)))] (attendance d)))))),
                 (''avg_grade'', PV (VNum 0))])"
  using assms by (simp add: course_progress_def Let_def avg_grade_def grade_values_def py_div_def)

lemma backend_progress_no_grades:
  assumes "getitem (snd en) ''course_id'' = Inr cid" and "object_id (new_id e) cid = Inr i"
    and "find_one_id i (course d) = Some c"
    and "find_many [(''student_id'', uid), (''course_id'', cid)] (grade d) = []"
  shows "backend_progress d e uid en =
     Inr (Some (PDict [(''course'', pdict (str_id_dict c)),
                 (''attendance_records'',
                    PV (VInt (int (length (find_many [(''student_id'', uid),
                       (''course_id'', cid)] (attendance d)))))),
                 (''avg_grade'', PV (VInt 0))]))"
  using assms by (simp add: backend_progress_def Let_def backend_avg_def)

lemma dashboard_Inr:
  assumes ok: "dashboard d e user = (Inr r, d2)"
  shows "\<exists>uid courses ps. getitem user ''_id'' = Inr uid \<and> set courses \<subseteq> set (course d) \<and>
           list_all2 (\<lambda>c p. course_progress d uid c = Inr p) courses ps \<and>
           r = PDict [(''user'', pdict user),
                      (''courses'', PList (map (\<lambda>c. pdict (str_id_dict c)) courses)),
                      (''progress'', PList ps)]"
proof (cases "getitem user ''_id''")
  case (Inl err)
  then show ?thesis using ok by (simp add: dashboard_def)
next
  case (Inr uid)
  note uid = this
  let ?ids = "map_err (\<lambda>en. bind_err (getitem (snd en) ''course_id'')
                 (to_object_id_val (new_id e)))
               (find_many [(''student_id'', uid)] (enrollment d))"
  show ?thesis
  proof (cases ?ids)
    case (Inl err)
    then show ?thesis using ok uid by (simp add: dashboard_def Let_def)
  next
    case (Inr course_ids)
    note ids = this
    let ?courses = "if course_ids \<noteq> []
                    then filter (\<lambda>c. fst c \<in> set course_ids) (course d) else []"
    show ?thesis
    proof (cases "map_err (course_progress d uid) ?courses")
      case (Inl err)
      then show ?thesis using ok uid ids by (simp add: dashboard_def Let_def)
    next
      case (Inr ps)
      have 1: "set ?courses \<subseteq> set (course d)" by auto
      have 2: "list_all2 (\<lambda>c p. course_progress d uid c = Inr p) ?courses ps"
        using Inr by (rule map_err_Inr)
      have 3: "r = PDict [(''user'', pdict user),
                      (''courses'', PList (map (\<lambda>c. pdict (str_id_dict c)) ?courses)),
                      (''progress'', PList ps)]"
        using ok uid ids Inr by (simp add: dashboard_def Let_def)
      show ?thesis using uid 1 2 3 by blast
    qed
  qed
qed

lemma backend_dashboard_Inr:
  assumes ok: "backend_dashboard d e user = (Inr r, d2)"
  shows "\<exists>uid rounds. getitem user ''_id'' = Inr uid \<and>
           list_all2 (\<lambda>en q. backend_progress d e uid en = Inr q)
             (find_many [(''student_id'', uid)] (enrollment d)) rounds \<and>
           r = PDict [(''progress'',
                 PList (concat (map (\<lambda>q. case q of None \<Rightarrow> [] | Some p \<Rightarrow> [p]) rounds)))]"
proof (cases "getitem user ''_id''")
  case (Inl err)
  then show ?thesis using ok by (simp add: backend_dashboard_def)
next
  case (Inr uid)
  note uid = this
  show ?thesis
  proof (cases "map_err (backend_progress d e uid)
                  (find_many [(''student_id'', uid)] (enrollment d))")
    case (Inl err)
    then show ?thesis using ok uid by (simp add: backend_dashboard_def)
  next
    case (Inr rounds)
    have 1: "list_all2 (\<lambda>en q. backend_progress d e uid en = Inr q)
             (find_many [(''student_id'', uid)] (enrollment d)) rounds"
      using Inr by (rule map_err_Inr)
    have 2: "r = PDict [(''progress'',
                 PList (concat (map (\<lambda>q. case q of None \<Rightarrow> [] | Some p \<Rightarrow> [p]) rounds)))]"
      using ok uid Inr by (simp add: backend_dashboard_def)
    show ?thesis using uid 1 2 by blast
  qed
qed

lemma session_expired_no_zde: "session_expired sess t \<noteq> Inl ZeroDivisionError"
proof (cases "map_of sess ''expires_at''")
  case None
  then show ?thesis by (simp add: session_expired_def)
next
  case (Some v)
  then show ?thesis by (cases v) (simp_all add: session_expired_def)
qed

lemma user_view_no_zde: "user_view user \<noteq> Inl ZeroDivisionError"
  by (cases "map_of (snd user) ''name''"; cases "map_of (snd user) ''email''")
     (simp_all add: user_view_def getitem_def)

lemma get_current_user_no_zde: "get_current_user d t a \<noteq> Inl ZeroDivisionError"
proof (cases a)
  case None
  then show ?thesis by (simp add: get_current_user_def)
next
  case (Some hdr)
  note hdr = this
  show ?thesis
  proof (cases "hdr = []")
    case True
    then show ?thesis using hdr by (simp add: get_current_user_def)
  next
    case False
    note ne = this
    show ?thesis
    proof (cases "find_one [(''token'', VStr (strip (remove_bearer hdr)))] (session d)")
      case None
      then show ?thesis using hdr ne by (simp add: get_current_user_def)
    next
      case (Some sess)
      note sess = this
      show ?thesis
      proof (cases "session_expired (snd sess) t")
        case (Inl err)
        then show ?thesis
          using hdr ne sess session_expired_no_zde [of "snd sess" t]
          by (simp add: get_current_user_def)
      next
        case (Inr expired)
        note ex = this
        show ?thesis
        proof (cases expired)
          case True
          then show ?thesis using hdr ne sess ex by (simp add: get_current_user_def)
        next
          case False
          note live = this
          show ?thesis
          proof (cases "getitem (snd sess) ''user_id''")
            case (Inl err)
            then show ?thesis
              using hdr ne sess ex live getitem_no_zde [of "snd sess" "''user_id''"]
              by (simp add: get_current_user_def)
          next
            case (Inr uid)
            note uid = this
            show ?thesis
            proof (cases "find_one_id_val uid (student d)")
              case None
              then show ?thesis
                using hdr ne sess ex live uid by (simp add: get_current_user_def)
            next
              case (Some user)
              then show ?thesis
                using hdr ne sess ex live uid user_view_no_zde [of user]
                by (simp add: get_current_user_def)
            qed
          qed
        qed
      qed
    qed
  qed
qed

lemma backend_get_current_user_no_zde:
  "backend_get_current_user d e a \<noteq> Inl ZeroDivisionError"
proof (cases a)
  case None
  then show ?thesis by (simp add: backend_get_current_user_def)
next
  case (Some hdr)
  note hdr = this
  show ?thesis
  proof (cases "hdr = [] \<or> \<not> startswith hdr ''Bearer ''")
    case True
    then show ?thesis using hdr by (simp add: backend_get_current_user_def)
  next
    case False
    note bearer = this
    show ?thesis
    proof (cases "split1_second hdr")
      case (Inl err)
      then have "err = IndexError"
        by (simp add: split1_second_def split: list.splits)
      then show ?thesis using hdr bearer Inl by (simp add: backend_get_current_user_def)
    next
      case (Inr tok)
      note tok = this
      show ?thesis
      proof (cases "find (live_session tok (now e)) (session d)")
        case None
        then show ?thesis using hdr bearer tok by (simp add: backend_get_current_user_def)
      next
        case (Some sess)
        note sess = this
        show ?thesis
        proof (cases "getitem (snd sess) ''student_id''")
          case (Inl err)
          then show ?thesis
            using hdr bearer tok sess getitem_no_zde [of "snd sess" "''student_id''"]
            by (simp add: backend_get_current_user_def)
        next
          case (Inr sid)
          note sid = this
          show ?thesis
          proof (cases "object_id (new_id3 e) sid")
            case (Inl err)
            then show ?thesis
              using hdr bearer tok sess sid object_id_no_zde [of "new_id3 e" sid]
              by (simp add: backend_get_current_user_def)
          next
            case (Inr i)
            then show ?thesis
              using hdr bearer tok sess sid
              by (simp add: backend_get_current_user_def split: option.splits)
          qed
        qed
      qed
    qed
  qed
qed

text \<open>What the gates do with a failing header or session, and what then becomes of the request.\<close>

lemma handle_gate_failure:
  "authorization_of r = Some a \<Longrightarrow> get_current_user d (now e) a = Inl err \<Longrightarrow>
     handle H d e r = (Inl err, d)"
  by (cases r) simp_all

lemma backend_handle_gate_failure:
  "backend_authorization_of r = Some a \<Longrightarrow> backend_get_current_user d e a = Inl err \<Longrightarrow>
     backend_handle d e r = (Inl err, d)"
  by (cases r) simp_all

lemma get_current_user_missing:
  "get_current_user d t None = Inl (HTTPException 401 ''Missing Authorization header'')"
  "get_current_user d t (Some []) = Inl (HTTPException 401 ''Missing Authorization header'')"
  by (simp_all add: get_current_user_def)

lemma backend_get_current_user_missing:
  "backend_get_current_user d e None = Inl (HTTPException 401 ''Missing token'')"
  "\<not> startswith hdr ''Bearer '' \<Longrightarrow>
     backend_get_current_user d e (Some hdr) = Inl (HTTPException 401 ''Missing token'')"
  by (simp_all add: backend_get_current_user_def)

lemma get_current_user_unknown_token:
  "hdr \<noteq> [] \<Longrightarrow>
   find_one [(''token'', VStr (strip (remove_bearer hdr)))] (session d) = None \<Longrightarrow>
     get_current_user d t (Some hdr) = Inl (HTTPException 401 ''Invalid token'')"
  by (simp add: get_current_user_def)

lemma get_current_user_expired:
  "hdr \<noteq> [] \<Longrightarrow>
   find_one [(''token'', VStr (strip (remove_bearer hdr)))] (session d) = Some sess \<Longrightarrow>
   map_of (snd sess) ''expires_at'' = Some (VTime x) \<Longrightarrow> x < t \<Longrightarrow>
     get_current_user d t (Some hdr) = Inl (HTTPException 401 ''Token expired'')"
  by (simp add: get_current_user_def session_expired_def)

lemma find_None_all: "(\<And>x. x \<in> set xs \<Longrightarrow> \<not> P x) \<Longrightarrow> find P xs = None"
  by (simp add: find_None_iff)

lemma backend_get_current_user_expired:
  assumes bearer: "startswith hdr ''Bearer ''" and tok: "split1_second hdr = Inr tok"
    and old: "\<And>sess x. sess \<in> set (session d) \<Longrightarrow> matches [(''token'', VStr tok)] sess \<Longrightarrow>
               map_of (snd sess) ''expires_at'' = Some (VTime x) \<Longrightarrow> x \<le> now e"
  shows "backend_get_current_user d e (Some hdr) =
           Inl (HTTPException 401 ''Invalid or expired token'')"
proof -
  have ne: "hdr \<noteq> []"
    using bearer by (auto simp: startswith_def)
  have "find (live_session tok (now e)) (session d) = None"
  proof (rule find_None_all)
    fix sess assume mem: "sess \<in> set (session d)"
    show "\<not> live_session tok (now e) sess"
    proof
      assume l: "live_session tok (now e) sess"
      then obtain x where x: "map_of (snd sess) ''expires_at'' = Some (VTime x)" "now e < x"
        by (auto simp: live_session_def split: option.splits val.splits)
      from l have "matches [(''token'', VStr tok)] sess"
        by (simp add: live_session_def)
      from old [OF mem this x(1)] x(2) show False by simp
    qed
  qed
  then show ?thesis
    using bearer ne tok by (simp add: backend_get_current_user_def)
qed


text \<open>
  Claim C10. A header that is absent or is not of the form \<open>Bearer <token>\<close> is to be
  rejected with the 401 before anything is done. The root variant only deletes the text
  \<open>Bearer \<close> from the header and trims it: a header that is the bare token resolves the
  identity, and the enrollment it asks for is stored. The backend variant rejects the same
  header.
\<close>

theorem gate_without_bearer_prefix:
  "\<not> startswith ''tok1'' ''Bearer ''
   \<and> get_current_user db_registered (now env2) (Some ''tok1'') = Inr alice_view
   \<and> enrollment db_registered = []
   \<and> handle toy_hash db_registered env2 (EnrollCourse (Some ''tok1'') enroll_c1) =
       (Inr (PDict [(''message'', PV (VStr ''Enrolled successfully''))]),
        db_registered\<lparr>enrollment :=
          [(oid4, [(''student_id'', VStr ''000000000000000000000001''),
                   (''course_id'', VStr ''0000000000000000000000c1''),
                   (''status'', VStr ''enrolled''), (''enrolled_at'', VTime 200)])]\<rparr>)
   \<and> backend_get_current_user backend_db_alice env2 (Some ''tok1'') =
       Inl (HTTPException 401 ''Missing token'')"
  by code_simp

text \<open>
  Claim C6. A second enrollment of a student in a course is to add no record, so that at
  most one enrollment exists for a student and a course. Both variants find the course by
  the parsed identifier, which is accepted in either letter case, but look the enrollment
  up, and store it, under the text of the identifier as it was sent. The same student
  enrolling in the same course under a second spelling of its identifier is therefore
  stored a second time. Evaluated in both variants.
\<close>

theorem enroll_second_spelling:
  "parse_oid (e_course_id enroll_c1) = Some (ObjectId ''0000000000000000000000c1'')
   \<and> parse_oid (e_course_id enroll_c1_upper) = Some (ObjectId ''0000000000000000000000c1'')
   \<and> enrollment db_enrolled =
       [(ObjectId ''000000000000000000000004'',
         [(''student_id'', VStr ''000000000000000000000001''),
          (''course_id'', VStr ''0000000000000000000000c1''),
          (''status'', VStr ''enrolled''), (''enrolled_at'', VTime 200)])]
   \<and> handle toy_hash db_enrolled env3 (EnrollCourse (Some ''Bearer tok1'') enroll_c1_upper) =
       (Inr (PDict [(''message'', PV (VStr ''Enrolled successfully''))]),
        db_enrolled\<lparr>enrollment :=
          [(ObjectId ''000000000000000000000004'',
            [(''student_id'', VStr ''000000000000000000000001''),
             (''course_id'', VStr ''0000000000000000000000c1''),
             (''status'', VStr ''enrolled''), (''enrolled_at'', VTime 200)]),
           (ObjectId ''000000000000000000000007'',
            [(''student_id'', VStr ''000000000000000000000001''),
             (''course_id'', VStr ''0000000000000000000000C1''),
             (''status'', VStr ''enrolled''), (''enrolled_at'', VTime 300)])]\<rparr>)
   \<and> parse_oid (e_course_id enroll_a_lower) = Some (ObjectId ''00000000000000000000000a'')
   \<and> parse_oid (e_course_id enroll_a_upper) = Some (ObjectId ''00000000000000000000000a'')
   \<and> enrollment backend_db_enrolled_a =
       [(ObjectId ''000000000000000000000004'',
         [(''student_id'', VStr ''000000000000000000000001''),
          (''course_id'', VStr ''00000000000000000000000a''),
          (''created_at'', VTime 200)])]
   \<and> backend_handle backend_db_enrolled_a env3
         (BEnroll (Some ''Bearer tok1'') enroll_a_upper) =
       (Inr (PDict [(''student_id'', PV (VStr ''000000000000000000000001'')),
                    (''course_id'', PV (VStr ''00000000000000000000000A'')),
                    (''created_at'', PV (VTime 300)),
                    (''_id'', PV (VStr ''000000000000000000000007''))]),
        backend_db_enrolled_a\<lparr>enrollment :=
          [(ObjectId ''000000000000000000000004'',
            [(''student_id'', VStr ''000000000000000000000001''),
             (''course_id'', VStr ''00000000000000000000000a''),
             (''created_at'', VTime 200)]),
           (ObjectId ''000000000000000000000007'',
            [(''student_id'', VStr ''000000000000000000000001''),
             (''course_id'', VStr ''00000000000000000000000A''),
             (''created_at'', VTime 300)])]\<rparr>)"
  by code_simp

lemma list_all2_mem:
  "list_all2 P xs ys \<Longrightarrow> x \<in> set xs \<Longrightarrow> \<exists>y \<in> set ys. P x y"
  by (induction rule: list_all2_induct) auto

lemma map_err_total:
  "(\<forall>x \<in> set xs. \<exists>y. f x = Inr y) \<Longrightarrow> \<exists>ys. map_err f xs = Inr ys"
proof (induction xs)
  case Nil
  show ?case by simp
next
  case (Cons x xs)
  obtain y where y: "f x = Inr y" using Cons.prems by auto
  obtain ys where ys: "map_err f xs = Inr ys" using Cons by auto
  show ?case using y ys by simp
qed

lemma py_sum_total:
  "(\<forall>v \<in> set vs. \<exists>x. num_of v = Inr x) \<Longrightarrow> \<exists>s. py_sum acc vs = Inr s"
proof (induction vs arbitrary: acc)
  case Nil
  show ?case by simp
next
  case (Cons v vs)
  obtain x where x: "num_of v = Inr x" using Cons.prems by auto
  obtain s where "py_sum (acc + x) vs = Inr s" using Cons by fastforce
  then show ?case using x by simp
qed

lemma grade_values_numeric:
  assumes "\<forall>g \<in> set docs. \<exists>x. num_of (get_default (snd g) ''grade'' (VInt 0)) = Inr x"
  shows "\<exists>s. py_sum 0 (grade_values docs) = Inr s"
proof (rule py_sum_total)
  show "\<forall>v \<in> set (grade_values docs). \<exists>x. num_of v = Inr x"
    using assms by (auto simp: grade_values_def)
qed

lemma avg_grade_total:
  assumes "\<forall>g \<in> set docs. \<exists>x. num_of (get_default (snd g) ''grade'' (VInt 0)) = Inr x"
  shows "\<exists>v. avg_grade docs = Inr v"
proof -
  obtain s where "py_sum 0 (grade_values docs) = Inr s"
    using grade_values_numeric [OF assms] by blast
  then show ?thesis by (simp add: avg_grade_def py_div_def)
qed

lemma backend_avg_total:
  assumes "\<forall>g \<in> set docs. \<exists>x. num_of (get_default (snd g) ''grade'' (VInt 0)) = Inr x"
  shows "\<exists>v. backend_avg docs = Inr v"
proof (cases "docs = []")
  case True
  then show ?thesis by (simp add: backend_avg_def)
next
  case False
  obtain s where "py_sum 0 (grade_values docs) = Inr s"
    using grade_values_numeric [OF assms] by blast
  then show ?thesis using False by (simp add: backend_avg_def py_div_def)
qed

lemma course_progress_total:
  assumes "\<forall>g \<in> set (grade d). \<exists>x. num_of (get_default (snd g) ''grade'' (VInt 0)) = Inr x"
  shows "\<exists>p. course_progress d uid c = Inr p"
proof -
  let ?g = "find_many [(''student_id'', uid), (''course_id'', VStr (str_oid (fst c)))] (grade d)"
  have "\<forall>g \<in> set ?g. \<exists>x. num_of (get_default (snd g) ''grade'' (VInt 0)) = Inr x"
    using assms by (simp add: find_many_def)
  then obtain v where "avg_grade ?g = Inr v"
    using avg_grade_total by blast
  then show ?thesis by (simp add: course_progress_def Let_def)
qed

lemma backend_progress_total:
  assumes "getitem (snd en) ''course_id'' = Inr cid" and "object_id (new_id e) cid = Inr i"
    and "\<forall>g \<in> set (grade d). \<exists>x. num_of (get_default (snd g) ''grade'' (VInt 0)) = Inr x"
  shows "\<exists>q. backend_progress d e uid en = Inr q"
proof (cases "find_one_id i (course d)")
  case None
  then show ?thesis using assms(1,2) by (simp add: backend_progress_def)
next
  case (Some c)
  let ?g = "find_many [(''student_id'', uid), (''course_id'', cid)] (grade d)"
  have "\<forall>g \<in> set ?g. \<exists>x. num_of (get_default (snd g) ''grade'' (VInt 0)) = Inr x"
    using assms(3) by (simp add: find_many_def)
  then obtain v where "backend_avg ?g = Inr v"
    using backend_avg_total by blast
  then show ?thesis using assms(1,2) Some by (simp add: backend_progress_def Let_def)
qed

lemma course_id_step:
  "map_of (snd en) ''course_id'' = Some (VStr s) \<Longrightarrow> parse_oid s = Some i \<Longrightarrow>
     bind_err (getitem (snd en) ''course_id'') (to_object_id_val fresh) = Inr i"
  by (simp add: getitem_def to_object_id_val_def object_id_def)

lemma dashboard_exact:
  assumes ok: "dashboard d e user = (Inr r, d2)"
  shows "d2 = d \<and>
         (\<exists>v ids ps. getitem user ''_id'' = Inr v \<and>
           list_all2 (\<lambda>en i. bind_err (getitem (snd en) ''course_id'')
                                (to_object_id_val (new_id e)) = Inr i)
             (find_many [(''student_id'', v)] (enrollment d)) ids \<and>
           list_all2 (\<lambda>c p. course_progress d v c = Inr p)
             (filter (\<lambda>c. fst c \<in> set ids) (course d)) ps \<and>
           r = PDict [(''user'', pdict user),
                      (''courses'', PList (map (\<lambda>c. pdict (str_id_dict c))
                                             (filter (\<lambda>c. fst c \<in> set ids) (course d)))),
                      (''progress'', PList ps)])"
proof (cases "getitem user ''_id''")
  case (Inl err)
  then show ?thesis using ok by (simp add: dashboard_def)
next
  case (Inr uid)
  note uid = this
  let ?step = "\<lambda>en. bind_err (getitem (snd en) ''course_id'') (to_object_id_val (new_id e))"
  let ?enrolls = "find_many [(''student_id'', uid)] (enrollment d)"
  show ?thesis
  proof (cases "map_err ?step ?enrolls")
    case (Inl err)
    then show ?thesis using ok uid by (simp add: dashboard_def Let_def)
  next
    case (Inr ids)
    note ids = this
    let ?courses = "if ids \<noteq> [] then filter (\<lambda>c. fst c \<in> set ids) (course d) else []"
    have same: "?courses = filter (\<lambda>c. fst c \<in> set ids) (course d)"
      by simp
    show ?thesis
    proof (cases "map_err (course_progress d uid) ?courses")
      case (Inl err)
      then show ?thesis using ok uid ids by (simp add: dashboard_def Let_def)
    next
      case (Inr ps)
      have 0: "d2 = d"
        using ok uid ids Inr by (simp add: dashboard_def Let_def)
      have 1: "list_all2 (\<lambda>en i. ?step en = Inr i) ?enrolls ids"
        using ids by (rule map_err_Inr)
      have "list_all2 (\<lambda>c p. course_progress d uid c = Inr p) ?courses ps"
        using Inr by (rule map_err_Inr)
      then have 2: "list_all2 (\<lambda>c p. course_progress d uid c = Inr p)
                      (filter (\<lambda>c. fst c \<in> set ids) (course d)) ps"
        by (simp only: same)
      have "r = PDict [(''user'', pdict user),
                      (''courses'', PList (map (\<lambda>c. pdict (str_id_dict c)) ?courses)),
                      (''progress'', PList ps)]"
        using ok uid ids Inr by (simp add: dashboard_def Let_def)
      then have 3: "r = PDict [(''user'', pdict user),
                      (''courses'', PList (map (\<lambda>c. pdict (str_id_dict c))
                                             (filter (\<lambda>c. fst c \<in> set ids) (course d)))),
                      (''progress'', PList ps)]"
        by (simp only: same)
      show ?thesis using 0 uid 1 2 3 by blast
    qed
  qed
qed

lemma dashboard_entry:
  assumes ok: "dashboard d e user = (Inr r, d2)" and uid: "getitem user ''_id'' = Inr v"
    and en: "en \<in> set (find_many [(''student_id'', v)] (enrollment d))"
    and cid: "map_of (snd en) ''course_id'' = Some (VStr s)" and parsed: "parse_oid s = Some i"
    and c: "c \<in> set (course d)" "fst c = i"
    and none: "find_many [(''student_id'', v), (''course_id'', VStr (str_oid i))] (grade d) = []"
  shows "\<exists>cs ps. r = PDict [(''user'', pdict user), (''courses'', cs), (''progress'', PList ps)] \<and>
           PDict [(''course'', pdict (str_id_dict c)),
                  (''attendance_records'',
                     PV (VInt (int (length (find_many [(''student_id'', v),
                        (''course_id'', VStr (str_oid i))] (attendance d)))))),
                  (''avg_grade'', PV (VNum 0))] \<in> set ps"
proof -
  from dashboard_exact [OF ok] uid obtain ids ps where
    ids: "list_all2 (\<lambda>en i. bind_err (getitem (snd en) ''course_id'')
                                (to_object_id_val (new_id e)) = Inr i)
             (find_many [(''student_id'', v)] (enrollment d)) ids"
    and ps: "list_all2 (\<lambda>c p. course_progress d v c = Inr p)
             (filter (\<lambda>c. fst c \<in> set ids) (course d)) ps"
    and r: "r = PDict [(''user'', pdict user),
                      (''courses'', PList (map (\<lambda>c. pdict (str_id_dict c))
                                             (filter (\<lambda>c. fst c \<in> set ids) (course d)))),
                      (''progress'', PList ps)]"
    by auto
  have step: "bind_err (getitem (snd en) ''course_id'') (to_object_id_val (new_id e)) = Inr i"
    using cid parsed by (rule course_id_step)
  from list_all2_mem [OF ids en] obtain j where
    j: "j \<in> set ids" "bind_err (getitem (snd en) ''course_id'')
                        (to_object_id_val (new_id e)) = Inr j"
    by blast
  with step have "i \<in> set ids" by simp
  with c have "c \<in> set (filter (\<lambda>c. fst c \<in> set ids) (course d))" by simp
  from list_all2_mem [OF ps this] obtain p where
    p: "p \<in> set ps" "course_progress d v c = Inr p"
    by blast
  have "course_progress d v c =
     Inr (PDict [(''course'', pdict (str_id_dict c)),
                 (''attendance_records'',
                    PV (VInt (int (length (find_many [(''student_id'', v),
                       (''course_id'', VStr (str_oid (fst c)))] (attendance d)))))),
                 (''avg_grade'', PV (VNum 0))])"
    using none c(2) by (intro course_progress_no_grades) simp
  with p c(2) have "PDict [(''course'', pdict (str_id_dict c)),
                  (''attendance_records'',
                     PV (VInt (int (length (find_many [(''student_id'', v),
                        (''course_id'', VStr (str_oid i))] (attendance d)))))),
                  (''avg_grade'', PV (VNum 0))] \<in> set ps"
    by auto
  with r show ?thesis by blast
qed

lemma dashboard_total:
  assumes uid: "getitem user ''_id'' = Inr v"
    and ids: "\<forall>en \<in> set (find_many [(''student_id'', v)] (enrollment d)).
               \<exists>i. bind_err (getitem (snd en) ''course_id'')
                      (to_object_id_val (new_id e)) = Inr i"
    and num: "\<forall>g \<in> set (grade d). \<exists>x. num_of (get_default (snd g) ''grade'' (VInt 0)) = Inr x"
  shows "\<exists>r. dashboard d e user = (Inr r, d)"
proof -
  obtain cids where cids: "map_err (\<lambda>en. bind_err (getitem (snd en) ''course_id'')
                      (to_object_id_val (new_id e)))
                 (find_many [(''student_id'', v)] (enrollment d)) = Inr cids"
    using map_err_total [OF ids] by blast
  let ?courses = "if cids \<noteq> [] then filter (\<lambda>c. fst c \<in> set cids) (course d) else []"
  have "\<forall>c \<in> set ?courses. \<exists>p. course_progress d v c = Inr p"
    using course_progress_total [OF num] by blast
  then obtain ps where "map_err (course_progress d v) ?courses = Inr ps"
    using map_err_total by blast
  then show ?thesis using uid cids by (simp add: dashboard_def Let_def)
qed

lemma backend_dashboard_exact:
  assumes ok: "backend_dashboard d e user = (Inr r, d2)"
  shows "d2 = d \<and>
         (\<exists>v rounds. getitem user ''_id'' = Inr v \<and>
           list_all2 (\<lambda>en q. backend_progress d e v en = Inr q)
             (find_many [(''student_id'', v)] (enrollment d)) rounds \<and>
           r = PDict [(''progress'',
                 PList (concat (map (\<lambda>q. case q of None \<Rightarrow> [] | Some p \<Rightarrow> [p]) rounds)))])"
proof -
  have "d2 = d"
    using ok backend_dashboard_frame [of d e user] by (metis snd_conv)
  then show ?thesis using backend_dashboard_Inr [OF ok] by blast
qed

lemma backend_dashboard_entry:
  assumes ok: "backend_dashboard d e user = (Inr r, d2)" and uid: "getitem user ''_id'' = Inr v"
    and en: "en \<in> set (find_many [(''student_id'', v)] (enrollment d))"
    and cid: "getitem (snd en) ''course_id'' = Inr cid" and oid: "object_id (new_id e) cid = Inr i"
    and c: "find_one_id i (course d) = Some c"
    and none: "find_many [(''student_id'', v), (''course_id'', cid)] (grade d) = []"
  shows "\<exists>ps. r = PDict [(''progress'', PList ps)] \<and>
           PDict [(''course'', pdict (str_id_dict c)),
                  (''attendance_records'',
                     PV (VInt (int (length (find_many [(''student_id'', v),
                        (''course_id'', cid)] (attendance d)))))),
                  (''avg_grade'', PV (VInt 0))] \<in> set ps"
proof -
  let ?entry = "PDict [(''course'', pdict (str_id_dict c)),
                  (''attendance_records'',
                     PV (VInt (int (length (find_many [(''student_id'', v),
                        (''course_id'', cid)] (attendance d)))))),
                  (''avg_grade'', PV (VInt 0))]"
  from backend_dashboard_exact [OF ok] uid obtain rounds where
    rounds: "list_all2 (\<lambda>en q. backend_progress d e v en = Inr q)
             (find_many [(''student_id'', v)] (enrollment d)) rounds"
    and r: "r = PDict [(''progress'',
                 PList (concat (map (\<lambda>q. case q of None \<Rightarrow> [] | Some p \<Rightarrow> [p]) rounds)))]"
    by auto
  from list_all2_mem [OF rounds en] obtain q where
    q: "q \<in> set rounds" "backend_progress d e v en = Inr q"
    by blast
  have "backend_progress d e v en = Inr (Some ?entry)"
    using cid oid c none by (rule backend_progress_no_grades)
  with q have "Some ?entry \<in> set rounds" by simp
  then have "?entry \<in> set (concat (map (\<lambda>q. case q of None \<Rightarrow> [] | Some p \<Rightarrow> [p]) rounds))"
    by force
  with r show ?thesis by blast
qed

lemma backend_dashboard_total:
  assumes uid: "getitem user ''_id'' = Inr v"
    and ids: "\<forall>en \<in> set (find_many [(''student_id'', v)] (enrollment d)).
               \<exists>cid i. getitem (snd en) ''course_id'' = Inr cid \<and>
                        object_id (new_id e) cid = Inr i"
    and num: "\<forall>g \<in> set (grade d). \<exists>x. num_of (get_default (snd g) ''grade'' (VInt 0)) = Inr x"
  shows "\<exists>r. backend_dashboard d e user = (Inr r, d)"
proof -
  have "\<forall>en \<in> set (find_many [(''student_id'', v)] (enrollment d)).
          \<exists>q. backend_progress d e v en = Inr q"
    using ids backend_progress_total [OF _ _ num] by blast
  then obtain rounds where "map_err (backend_progress d e v)
      (find_many [(''student_id'', v)] (enrollment d)) = Inr rounds"
    using map_err_total by blast
  then show ?thesis using uid by (simp add: backend_dashboard_def)
qed

text \<open>
  Claim C8. The dashboard never fails with a division by zero, in either variant. For
  every enrollment of the caller whose course is stored and in which the caller has no
  grade record, the progress list of the dashboard's answer holds the entry of that course
  with average grade 0 (the float 0.0 in the root variant, the integer 0 in the backend
  variant). The answer lists exactly the stored courses named by the caller's enrollments,
  one entry each, and the dashboard does answer whenever the caller's enrollments carry
  readable course ids and the stored grades are numbers.
\<close>

theorem dashboard_avg_grade:
  "fst (handle H d e (Dashboard a)) \<noteq> Inl ZeroDivisionError
   \<and> fst (backend_handle d e (BDashboard a)) \<noteq> Inl ZeroDivisionError
   \<and> (get_current_user d (now e) a = Inr user \<longrightarrow>
        handle H d e (Dashboard a) = dashboard d e user)
   \<and> (backend_get_current_user d e a = Inr user \<longrightarrow>
        backend_handle d e (BDashboard a) = backend_dashboard d e user)
   \<and> (find_many [(''student_id'', uid), (''course_id'', VStr (str_oid (fst c)))] (grade d) = []
        \<longrightarrow> course_progress d uid c =
          Inr (PDict [(''course'', pdict (str_id_dict c)),
                 (''attendance_records'',
                    PV (VInt (int (length (find_many [(''student_id'', uid),
                       (''course_id'', VStr (str_oid (fst c)))] (attendance d)))))),
                 (''avg_grade'', PV (VNum 0))]))
   \<and> (dashboard d e user = (Inr r, d2) \<longrightarrow>
        d2 = d \<and>
        (\<exists>v ids ps. getitem user ''_id'' = Inr v \<and>
           list_all2 (\<lambda>en i. bind_err (getitem (snd en) ''course_id'')
                                (to_object_id_val (new_id e)) = Inr i)
             (find_many [(''student_id'', v)] (enrollment d)) ids \<and>
           list_all2 (\<lambda>c p. course_progress d v c = Inr p)
             (filter (\<lambda>c. fst c \<in> set ids) (course d)) ps \<and>
           r = PDict [(''user'', pdict user),
                      (''courses'', PList (map (\<lambda>c. pdict (str_id_dict c))
                                             (filter (\<lambda>c. fst c \<in> set ids) (course d)))),
                      (''progress'', PList ps)]))
   \<and> (dashboard d e user = (Inr r, d2) \<and> getitem user ''_id'' = Inr uid \<and>
       en \<in> set (find_many [(''student_id'', uid)] (enrollment d)) \<and>
       map_of (snd en) ''course_id'' = Some (VStr s) \<and> parse_oid s = Some i \<and>
       c \<in> set (course d) \<and> fst c = i \<and>
       find_many [(''student_id'', uid), (''course_id'', VStr (str_oid i))] (grade d) = []
       \<longrightarrow>
       (\<exists>cs ps. r = PDict [(''user'', pdict user), (''courses'', cs), (''progress'', PList ps)] \<and>
           PDict [(''course'', pdict (str_id_dict c)),
                  (''attendance_records'',
                     PV (VInt (int (length (find_many [(''student_id'', uid),
                        (''course_id'', VStr (str_oid i))] (attendance d)))))),
                  (''avg_grade'', PV (VNum 0))] \<in> set ps))
   \<and> (getitem user ''_id'' = Inr uid \<and>
       (\<forall>en \<in> set (find_many [(''student_id'', uid)] (enrollment d)).
          \<exists>i. bind_err (getitem (snd en) ''course_id'') (to_object_id_val (new_id e)) = Inr i) \<and>
       (\<forall>g \<in> set (grade d). \<exists>x. num_of (get_default (snd g) ''grade'' (VInt 0)) = Inr x)
       \<longrightarrow> (\<exists>r. dashboard d e user = (Inr r, d)))
   \<and> (getitem (snd en) ''course_id'' = Inr cid \<and> object_id (new_id e) cid = Inr i \<and>
       find_one_id i (course d) = Some bc \<and>
       find_many [(''student_id'', uid), (''course_id'', cid)] (grade d) = [] \<longrightarrow>
       backend_progress d e uid en =
         Inr (Some (PDict [(''course'', pdict (str_id_dict bc)),
                 (''attendance_records'',
                    PV (VInt (int (length (find_many [(''student_id'', uid),
                       (''course_id'', cid)] (attendance d)))))),
                 (''avg_grade'', PV (VInt 0))])))
   \<and> (backend_dashboard d e user = (Inr r', d3) \<longrightarrow>
        d3 = d \<and>
        (\<exists>v rounds. getitem user ''_id'' = Inr v \<and>
           list_all2 (\<lambda>en q. backend_progress d e v en = Inr q)
             (find_many [(''student_id'', v)] (enrollment d)) rounds \<and>
           r' = PDict [(''progress'',
                 PList (concat (map (\<lambda>q. case q of None \<Rightarrow> [] | Some p \<Rightarrow> [p])
                                  rounds)))]))
   \<and> (backend_dashboard d e user = (Inr r', d3) \<and> getitem user ''_id'' = Inr uid \<and>
       en \<in> set (find_many [(''student_id'', uid)] (enrollment d)) \<and>
       getitem (snd en) ''course_id'' = Inr cid \<and> object_id (new_id e) cid = Inr i \<and>
       find_one_id i (course d) = Some bc \<and>
       find_many [(''student_id'', uid), (''course_id'', cid)] (grade d) = [] \<longrightarrow>
       (\<exists>ps. r' = PDict [(''progress'', PList ps)] \<and>
           PDict [(''course'', pdict (str_id_dict bc)),
                  (''attendance_records'',
                     PV (VInt (int (length (find_many [(''student_id'', uid),
                        (''course_id'', cid)] (attendance d)))))),
                  (''avg_grade'', PV (VInt 0))] \<in> set ps))
   \<and> (getitem user ''_id'' = Inr uid \<and>
       (\<forall>en \<in> set (find_many [(''student_id'', uid)] (enrollment d)).
          \<exists>cid i. getitem (snd en) ''course_id'' = Inr cid \<and>
                   object_id (new_id e) cid = Inr i) \<and>
       (\<forall>g \<in> set (grade d). \<exists>x. num_of (get_default (snd g) ''grade'' (VInt 0)) = Inr x)
       \<longrightarrow> (\<exists>r. backend_dashboard d e user = (Inr r, d)))"
proof (intro conjI impI)
  show "fst (handle H d e (Dashboard a)) \<noteq> Inl ZeroDivisionError"
    using get_current_user_no_zde [of d "now e" a] dashboard_no_zde
    by (cases "get_current_user d (now e) a") simp_all
next
  show "fst (backend_handle d e (BDashboard a)) \<noteq> Inl ZeroDivisionError"
    using backend_get_current_user_no_zde [of d e a] backend_dashboard_no_zde
    by (cases "backend_get_current_user d e a") simp_all
next
  assume "get_current_user d (now e) a = Inr user"
  then show "handle H d e (Dashboard a) = dashboard d e user" by simp
next
  assume "backend_get_current_user d e a = Inr user"
  then show "backend_handle d e (BDashboard a) = backend_dashboard d e user" by simp
next
  assume "find_many [(''student_id'', uid), (''course_id'', VStr (str_oid (fst c)))] (grade d)
            = []"
  then show "course_progress d uid c =
          Inr (PDict [(''course'', pdict (str_id_dict c)),
                 (''attendance_records'',
                    PV (VInt (int (length (find_many [(''student_id'', uid),
                       (''course_id'', VStr (str_oid (fst c)))] (attendance d)))))),
                 (''avg_grade'', PV (VNum 0))])"
    by (rule course_progress_no_grades)
next
  assume "dashboard d e user = (Inr r, d2)"
  then show "d2 = d"
    using dashboard_exact by blast
next
  assume "dashboard d e user = (Inr r, d2)"
  then show "\<exists>v ids ps. getitem user ''_id'' = Inr v \<and>
           list_all2 (\<lambda>en i. bind_err (getitem (snd en) ''course_id'')
                                (to_object_id_val (new_id e)) = Inr i)
             (find_many [(''student_id'', v)] (enrollment d)) ids \<and>
           list_all2 (\<lambda>c p. course_progress d v c = Inr p)
             (filter (\<lambda>c. fst c \<in> set ids) (course d)) ps \<and>
           r = PDict [(''user'', pdict user),
                      (''courses'', PList (map (\<lambda>c. pdict (str_id_dict c))
                                             (filter (\<lambda>c. fst c \<in> set ids) (course d)))),
                      (''progress'', PList ps)]"
    using dashboard_exact by blast
next
  assume "dashboard d e user = (Inr r, d2) \<and> getitem user ''_id'' = Inr uid \<and>
       en \<in> set (find_many [(''student_id'', uid)] (enrollment d)) \<and>
       map_of (snd en) ''course_id'' = Some (VStr s) \<and> parse_oid s = Some i \<and>
       c \<in> set (course d) \<and> fst c = i \<and>
       find_many [(''student_id'', uid), (''course_id'', VStr (str_oid i))] (grade d) = []"
  then show "\<exists>cs ps. r = PDict [(''user'', pdict user), (''courses'', cs),
                              (''progress'', PList ps)] \<and>
           PDict [(''course'', pdict (str_id_dict c)),
                  (''attendance_records'',
                     PV (VInt (int (length (find_many [(''student_id'', uid),
                        (''course_id'', VStr (str_oid i))] (attendance d)))))),
                  (''avg_grade'', PV (VNum 0))] \<in> set ps"
    using dashboard_entry [of d e user r d2 uid en s i c] by blast
next
  assume "getitem user ''_id'' = Inr uid \<and>
       (\<forall>en \<in> set (find_many [(''student_id'', uid)] (enrollment d)).
          \<exists>i. bind_err (getitem (snd en) ''course_id'') (to_object_id_val (new_id e)) = Inr i) \<and>
       (\<forall>g \<in> set (grade d). \<exists>x. num_of (get_default (snd g) ''grade'' (VInt 0)) = Inr x)"
  then show "\<exists>r. dashboard d e user = (Inr r, d)"
    using dashboard_total [of user uid d e] by blast
next
  assume "getitem (snd en) ''course_id'' = Inr cid \<and> object_id (new_id e) cid = Inr i \<and>
       find_one_id i (course d) = Some bc \<and>
       find_many [(''student_id'', uid), (''course_id'', cid)] (grade d) = []"
  then show "backend_progress d e uid en =
         Inr (Some (PDict [(''course'', pdict (str_id_dict bc)),
                 (''attendance_records'',
                    PV (VInt (int (length (find_many [(''student_id'', uid),
                       (''course_id'', cid)] (attendance d)))))),
                 (''avg_grade'', PV (VInt 0))]))"
    using backend_progress_no_grades by blast
next
  assume "backend_dashboard d e user = (Inr r', d3)"
  then show "d3 = d"
    using backend_dashboard_exact by blast
next
  assume "backend_dashboard d e user = (Inr r', d3)"
  then show "\<exists>v rounds. getitem user ''_id'' = Inr v \<and>
           list_all2 (\<lambda>en q. backend_progress d e v en = Inr q)
             (find_many [(''student_id'', v)] (enrollment d)) rounds \<and>
           r' = PDict [(''progress'',
                 PList (concat (map (\<lambda>q. case q of None \<Rightarrow> [] | Some p \<Rightarrow> [p])
                                  rounds)))]"
    using backend_dashboard_exact by blast
next
  assume "backend_dashboard d e user = (Inr r', d3) \<and> getitem user ''_id'' = Inr uid \<and>
       en \<in> set (find_many [(''student_id'', uid)] (enrollment d)) \<and>
       getitem (snd en) ''course_id'' = Inr cid \<and> object_id (new_id e) cid = Inr i \<and>
       find_one_id i (course d) = Some bc \<and>
       find_many [(''student_id'', uid), (''course_id'', cid)] (grade d) = []"
  then show "\<exists>ps. r' = PDict [(''progress'', PList ps)] \<and>
           PDict [(''course'', pdict (str_id_dict bc)),
                  (''attendance_records'',
                     PV (VInt (int (length (find_many [(''student_id'', uid),
                        (''course_id'', cid)] (attendance d)))))),
                  (''avg_grade'', PV (VInt 0))] \<in> set ps"
    using backend_dashboard_entry [of d e user r' d3 uid en cid i bc] by blast
next
  assume "getitem user ''_id'' = Inr uid \<and>
       (\<forall>en \<in> set (find_many [(''student_id'', uid)] (enrollment d)).
          \<exists>cid i. getitem (snd en) ''course_id'' = Inr cid \<and>
                   object_id (new_id e) cid = Inr i) \<and>
       (\<forall>g \<in> set (grade d). \<exists>x. num_of (get_default (snd g) ''grade'' (VInt 0)) = Inr x)"
  then show "\<exists>r. backend_dashboard d e user = (Inr r, d)"
    using backend_dashboard_total [of user uid d e] by blast
qed

theorem dashboard_avg_grade_witness:
  "find_many [(''student_id'', VStr ''000000000000000000000001''),
              (''course_id'', VStr (str_oid (fst c1_doc)))] (grade db_enrolled) = []
   \<and> course_progress db_enrolled (VStr ''000000000000000000000001'') c1_doc =
       Inr (PDict [(''course'', pdict (str_id_dict c1_doc)),
                   (''attendance_records'', PV (VInt 0)), (''avg_grade'', PV (VNum 0))])
   \<and> enrollment_doc \<in> set (find_many [(''student_id'', VStr ''000000000000000000000001'')]
                               (enrollment db_enrolled))
   \<and> c1_doc \<in> set (course db_enrolled)
   \<and> handle toy_hash db_enrolled env3 (Dashboard (Some ''Bearer tok1'')) =
       (Inr (PDict [(''user'', pdict alice_view),
                    (''courses'', PList [pdict (str_id_dict c1_doc)]),
                    (''progress'', PList [PDict [(''course'', pdict (str_id_dict c1_doc)),
                       (''attendance_records'', PV (VInt 0)),
                       (''avg_grade'', PV (VNum 0))]])]), db_enrolled)
   \<and> (\<exists>cs ps.
         PDict [(''user'', pdict alice_view),
                (''courses'', PList [pdict (str_id_dict c1_doc)]),
                (''progress'', PList [PDict [(''course'', pdict (str_id_dict c1_doc)),
                   (''attendance_records'', PV (VInt 0)), (''avg_grade'', PV (VNum 0))]])]
           = PDict [(''user'', pdict alice_view), (''courses'', cs), (''progress'', PList ps)] \<and>
         PDict [(''course'', pdict (str_id_dict c1_doc)),
                (''attendance_records'',
                   PV (VInt (int (length (find_many
                      [(''student_id'', VStr ''000000000000000000000001''),
                       (''course_id'', VStr (str_oid (ObjectId ''0000000000000000000000c1'')))]
                      (attendance db_enrolled)))))),
                (''avg_grade'', PV (VNum 0))] \<in> set ps)
   \<and> (\<exists>r. dashboard db_enrolled env3 alice_view = (Inr r, db_enrolled))
   \<and> fst (handle toy_hash db_enrolled env3 (Dashboard (Some ''Bearer tok1'')))
       \<noteq> Inl ZeroDivisionError
   \<and> backend_enrollment_doc
       \<in> set (find_many [(''student_id'', VStr ''000000000000000000000004'')]
                 (enrollment backend_db_enrolled))
   \<and> backend_progress backend_db_enrolled env4 (VStr ''000000000000000000000004'')
         backend_enrollment_doc =
       Inr (Some (PDict [(''course'', pdict (str_id_dict seeded_doc)),
                   (''attendance_records'', PV (VInt 0)), (''avg_grade'', PV (VInt 0))]))
   \<and> backend_handle backend_db_enrolled env4 (BDashboard (Some ''Bearer tok2'')) =
       (Inr (PDict [(''progress'', PList [PDict [(''course'', pdict (str_id_dict seeded_doc)),
                       (''attendance_records'', PV (VInt 0)),
                       (''avg_grade'', PV (VInt 0))]])]), backend_db_enrolled)
   \<and> (\<exists>ps.
         PDict [(''progress'', PList [PDict [(''course'', pdict (str_id_dict seeded_doc)),
                   (''attendance_records'', PV (VInt 0)), (''avg_grade'', PV (VInt 0))]])]
           = PDict [(''progress'', PList ps)] \<and>
         PDict [(''course'', pdict (str_id_dict seeded_doc)),
                (''attendance_records'',
                   PV (VInt (int (length (find_many
                      [(''student_id'', VStr ''000000000000000000000004''),
                       (''course_id'', VStr ''000000000000000000000001'')]
                      (attendance backend_db_enrolled)))))),
                (''avg_grade'', PV (VInt 0))] \<in> set ps)
   \<and> (\<exists>r. backend_dashboard backend_db_enrolled env4 backend_alice_doc
              = (Inr r, backend_db_enrolled))
   \<and> fst (backend_handle backend_db_enrolled env4 (BDashboard (Some ''Bearer tok2'')))
       \<noteq> Inl ZeroDivisionError"
proof -
  let ?uid = "VStr ''000000000000000000000001''"
  let ?buid = "VStr ''000000000000000000000004''"
  let ?entry = "PDict [(''course'', pdict (str_id_dict c1_doc)),
                       (''attendance_records'', PV (VInt 0)),
                       (''avg_grade'', PV (VNum 0))]"
  let ?bentry = "PDict [(''course'', pdict (str_id_dict seeded_doc)),
                       (''attendance_records'', PV (VInt 0)),
                       (''avg_grade'', PV (VInt 0))]"
  let ?r = "PDict [(''user'', pdict alice_view),
                    (''courses'', PList [pdict (str_id_dict c1_doc)]),
                    (''progress'', PList [?entry])]"
  let ?br = "PDict [(''progress'', PList [?bentry])]"
  let ?c1 = "ObjectId ''0000000000000000000000c1''"
  let ?s1 = "ObjectId ''000000000000000000000001''"
  have gate: "get_current_user db_enrolled (now env3) (Some ''Bearer tok1'') = Inr alice_view"
    by code_simp
  have uid: "getitem alice_view ''_id'' = Inr ?uid"
    by code_simp
  have g: "find_many [(''student_id'', ?uid), (''course_id'', VStr (str_oid (fst c1_doc)))]
             (grade db_enrolled) = []"
    by code_simp
  have g': "find_many [(''student_id'', ?uid), (''course_id'', VStr (str_oid ?c1))]
             (grade db_enrolled) = []"
    by code_simp
  have at: "find_many [(''student_id'', ?uid), (''course_id'', VStr (str_oid (fst c1_doc)))]
             (attendance db_enrolled) = []"
    by code_simp
  have at': "find_many [(''student_id'', ?uid), (''course_id'', VStr (str_oid ?c1))]
             (attendance db_enrolled) = []"
    by code_simp
  have fm: "find_many [(''student_id'', ?uid)] (enrollment db_enrolled) = [enrollment_doc]"
    by code_simp
  have cs: "course db_enrolled = [c1_doc]"
    by code_simp
  have gr: "grade db_enrolled = []"
    by code_simp
  have en1: "map_of (snd enrollment_doc) ''course_id'' = Some (VStr ''0000000000000000000000c1'')"
    by code_simp
  have po: "parse_oid ''0000000000000000000000c1'' = Some ?c1"
    by code_simp
  have fc: "fst c1_doc = ?c1"
    by code_simp
  have step: "bind_err (getitem (snd enrollment_doc) ''course_id'')
                (to_object_id_val (new_id env3)) = Inr ?c1"
    by code_simp
  have dr: "dashboard db_enrolled env3 alice_view = (Inr ?r, db_enrolled)"
    by code_simp
  have bgate: "backend_get_current_user backend_db_enrolled env4 (Some ''Bearer tok2'')
                 = Inr backend_alice_doc"
    by code_simp
  have buid: "getitem backend_alice_doc ''_id'' = Inr ?buid"
    by code_simp
  have bfm: "find_many [(''student_id'', ?buid)] (enrollment backend_db_enrolled)
               = [backend_enrollment_doc]"
    by code_simp
  have bgr: "grade backend_db_enrolled = []"
    by code_simp
  have b1: "getitem (snd backend_enrollment_doc) ''course_id''
              = Inr (VStr ''000000000000000000000001'')"
    by code_simp
  have b2: "object_id (new_id env4) (VStr ''000000000000000000000001'') = Inr ?s1"
    by code_simp
  have b3: "find_one_id ?s1 (course backend_db_enrolled) = Some seeded_doc"
    by code_simp
  have b4: "find_many [(''student_id'', ?buid),
                       (''course_id'', VStr ''000000000000000000000001'')]
              (grade backend_db_enrolled) = []"
    by code_simp
  have b5: "find_many [(''student_id'', ?buid),
                       (''course_id'', VStr ''000000000000000000000001'')]
              (attendance backend_db_enrolled) = []"
    by code_simp
  have bdr: "backend_dashboard backend_db_enrolled env4 backend_alice_doc
               = (Inr ?br, backend_db_enrolled)"
    by code_simp
  note t1 = dashboard_avg_grade [where d = db_enrolled and e = env3 and H = toy_hash
      and a = "Some ''Bearer tok1''" and user = alice_view and uid = ?uid and c = c1_doc
      and r = ?r and ?d2.0 = db_enrolled and en = enrollment_doc
      and s = "''0000000000000000000000c1''" and i = ?c1]
  note t2 = dashboard_avg_grade [where d = backend_db_enrolled and e = env4
      and a = "Some ''Bearer tok2''" and user = backend_alice_doc and uid = ?buid
      and en = backend_enrollment_doc and cid = "VStr ''000000000000000000000001''"
      and i = ?s1 and bc = seeded_doc and r' = ?br and ?d3.0 = backend_db_enrolled]
  have m1: "enrollment_doc \<in> set (find_many [(''student_id'', ?uid)] (enrollment db_enrolled))"
    using fm by simp
  have m2: "c1_doc \<in> set (course db_enrolled)"
    using cs by simp
  have w1: "course_progress db_enrolled ?uid c1_doc = Inr ?entry"
    using t1
        [THEN conjunct2, THEN conjunct2, THEN conjunct2, THEN conjunct2,
        THEN conjunct1]
      g at by simp
  have w2: "handle toy_hash db_enrolled env3 (Dashboard (Some ''Bearer tok1''))
              = (Inr ?r, db_enrolled)"
    using t1
        [THEN conjunct2, THEN conjunct2, THEN conjunct1]
      gate dr by simp
  have e1: "\<exists>cs ps. ?r = PDict [(''user'', pdict alice_view), (''courses'', cs),
                            (''progress'', PList ps)] \<and>
               PDict [(''course'', pdict (str_id_dict c1_doc)),
                  (''attendance_records'',
                     PV (VInt (int (length (find_many [(''student_id'', ?uid),
                        (''course_id'', VStr (str_oid ?c1))] (attendance db_enrolled)))))),
                  (''avg_grade'', PV (VNum 0))] \<in> set ps"
    using t1
        [THEN conjunct2, THEN conjunct2, THEN conjunct2, THEN conjunct2,
        THEN conjunct2, THEN conjunct2, THEN conjunct1]
      dr uid m1 en1 po m2 fc g' by blast
  have all1: "\<forall>en \<in> set (find_many [(''student_id'', ?uid)] (enrollment db_enrolled)).
          \<exists>i. bind_err (getitem (snd en) ''course_id'') (to_object_id_val (new_id env3)) = Inr i"
    using fm step by simp
  have num1: "\<forall>g \<in> set (grade db_enrolled).
          \<exists>x. num_of (get_default (snd g) ''grade'' (VInt 0)) = Inr x"
    using gr by simp
  have w3: "\<exists>r. dashboard db_enrolled env3 alice_view = (Inr r, db_enrolled)"
    using t1
        [THEN conjunct2, THEN conjunct2, THEN conjunct2, THEN conjunct2,
        THEN conjunct2, THEN conjunct2, THEN conjunct2, THEN conjunct1]
      uid all1 num1 by blast
  have w4: "fst (handle toy_hash db_enrolled env3 (Dashboard (Some ''Bearer tok1'')))
       \<noteq> Inl ZeroDivisionError"
    using t1
        [THEN conjunct1]
      .
  have m3: "backend_enrollment_doc
       \<in> set (find_many [(''student_id'', ?buid)] (enrollment backend_db_enrolled))"
    using bfm by simp
  have w5: "backend_progress backend_db_enrolled env4 ?buid backend_enrollment_doc
              = Inr (Some ?bentry)"
    using t2
        [THEN conjunct2, THEN conjunct2, THEN conjunct2, THEN conjunct2,
        THEN conjunct2, THEN conjunct2, THEN conjunct2, THEN conjunct2,
        THEN conjunct1]
      b1 b2 b3 b4 b5 by simp
  have w6: "backend_handle backend_db_enrolled env4 (BDashboard (Some ''Bearer tok2''))
              = (Inr ?br, backend_db_enrolled)"
    using t2
        [THEN conjunct2, THEN conjunct2, THEN conjunct2, THEN conjunct1]
      bgate bdr by simp
  have e2: "\<exists>ps. ?br = PDict [(''progress'', PList ps)] \<and>
               PDict [(''course'', pdict (str_id_dict seeded_doc)),
                  (''attendance_records'',
                     PV (VInt (int (length (find_many [(''student_id'', ?buid),
                        (''course_id'', VStr ''000000000000000000000001'')]
                        (attendance backend_db_enrolled)))))),
                  (''avg_grade'', PV (VInt 0))] \<in> set ps"
    using t2
        [THEN conjunct2, THEN conjunct2, THEN conjunct2, THEN conjunct2,
        THEN conjunct2, THEN conjunct2, THEN conjunct2, THEN conjunct2,
        THEN conjunct2, THEN conjunct2, THEN conjunct1]
      bdr buid m3 b1 b2 b3 b4 by blast
  have all2: "\<forall>en \<in> set (find_many [(''student_id'', ?buid)] (enrollment backend_db_enrolled)).
          \<exists>cid i. getitem (snd en) ''course_id'' = Inr cid \<and>
                   object_id (new_id env4) cid = Inr i"
    using bfm b1 b2 by simp
  have num2: "\<forall>g \<in> set (grade backend_db_enrolled).
          \<exists>x. num_of (get_default (snd g) ''grade'' (VInt 0)) = Inr x"
    using bgr by simp
  have w7: "\<exists>r. backend_dashboard backend_db_enrolled env4 backend_alice_doc
              = (Inr r, backend_db_enrolled)"
    using t2
        [THEN conjunct2, THEN conjunct2, THEN conjunct2, THEN conjunct2,
        THEN conjunct2, THEN conjunct2, THEN conjunct2, THEN conjunct2,
        THEN conjunct2, THEN conjunct2, THEN conjunct2]
      buid all2 num2 by blast
  have w8: "fst (backend_handle backend_db_enrolled env4 (BDashboard (Some ''Bearer tok2'')))
       \<noteq> Inl ZeroDivisionError"
    using t2
        [THEN conjunct2, THEN conjunct1]
      .
  show ?thesis
    using g w1 m1 m2 w2 e1 w3 w4 m3 w5 w6 e2 w7 w8 by (intro conjI)
qed

end
